theory Spec2Isabelle
  imports Main
begin

section \<open>Python values, errors and string primitives\<close>

text \<open>
  The smart-extractor package passes JSON-like Python values around: the manifest
  entries read by \<^verbatim>\<open>core/loader.py\<close>, the extracted-content dictionaries saved by
  \<^verbatim>\<open>core/storage.py\<close> and the processing log. They are modelled by one datatype. A
  \<^verbatim>\<open>dict\<close> is an association list in insertion order with unique keys. A float is
  kept as the text it was read from, since no arithmetic is done on it.

  Text is a \<open>string\<close>; a \<open>char\<close> stands for a Unicode code point below 256, and the
  character classes below are Python's on that range.
\<close>

datatype pyval =
    PNone
  | PBool bool
  | PInt int
  | PFloat string
  | PStr string
  | PList "pyval list"
  | PDict "(string \<times> pyval) list"

text \<open>
  A raised exception is a value: its class and the message \<^verbatim>\<open>str(e)\<close> gives.
  \<^verbatim>\<open>OtherError\<close> stands for the classes raised by the collaborators outside the core
  (the HTTP client, the HTML parser), named by their first argument.
\<close>

datatype error =
    FileNotFoundError string
  | ValueError string
  | AttributeError string
  | TypeError string
  | KeyError string
  | OSError string
  | OtherError string string

fun str_of_error :: "error \<Rightarrow> string" where
  "str_of_error (FileNotFoundError m) = m"
| "str_of_error (ValueError m) = m"
| "str_of_error (AttributeError m) = m"
| "str_of_error (TypeError m) = m"
| "str_of_error (KeyError m) = m"
| "str_of_error (OSError m) = m"
| "str_of_error (OtherError c m) = m"

text \<open>\<^verbatim>\<open>type(v).__name__\<close>, as it appears in the messages of the interpreter.\<close>

fun type_name :: "pyval \<Rightarrow> string" where
  "type_name PNone = ''NoneType''"
| "type_name (PBool b) = ''bool''"
| "type_name (PInt i) = ''int''"
| "type_name (PFloat f) = ''float''"
| "type_name (PStr s) = ''str''"
| "type_name (PList xs) = ''list''"
| "type_name (PDict d) = ''dict''"

text \<open>The error of \<^verbatim>\<open>v.attr\<close> on a value that has no such attribute.\<close>

definition no_attribute :: "pyval \<Rightarrow> string \<Rightarrow> error" where
  "no_attribute v attr =
     AttributeError ([CHR 0x27] @ type_name v @ [CHR 0x27] @ '' object has no attribute ''
                     @ [CHR 0x27] @ attr @ [CHR 0x27])"

definition code_in :: "char \<Rightarrow> nat \<Rightarrow> nat \<Rightarrow> bool" where
  "code_in c lo hi = (lo \<le> (of_char c :: nat) \<and> (of_char c :: nat) \<le> hi)"

text \<open>\<^verbatim>\<open>str.isspace\<close> on one character: TAB..CR, FS..US, space, NEL and NBSP.\<close>

definition py_isspace :: "char \<Rightarrow> bool" where
  "py_isspace c = (code_in c 9 13 \<or> code_in c 28 32 \<or> code_in c 133 133 \<or> code_in c 160 160)"

text \<open>\<^verbatim>\<open>str.lower\<close> on one character: A..Z and the Latin-1 capitals move up by 32.\<close>

definition py_lower_char :: "char \<Rightarrow> char" where
  "py_lower_char c =
     (if code_in c 65 90 \<or> code_in c 192 214 \<or> code_in c 216 222
      then char_of ((of_char c :: nat) + 32) else c)"

definition lower :: "string \<Rightarrow> string" where
  "lower s = map py_lower_char s"

definition lstrip :: "string \<Rightarrow> string" where
  "lstrip s = dropWhile py_isspace s"

definition rstrip :: "string \<Rightarrow> string" where
  "rstrip s = rev (dropWhile py_isspace (rev s))"

definition strip :: "string \<Rightarrow> string" where
  "strip s = rstrip (lstrip s)"

text \<open>\<^verbatim>\<open>s.strip(chars)\<close> and \<^verbatim>\<open>s.rstrip(chars)\<close> with an explicit character set.\<close>

definition rstrip_chars :: "string \<Rightarrow> string \<Rightarrow> string" where
  "rstrip_chars cs s = rev (dropWhile (\<lambda>c. c \<in> set cs) (rev s))"

definition strip_chars :: "string \<Rightarrow> string \<Rightarrow> string" where
  "strip_chars cs s = rstrip_chars cs (dropWhile (\<lambda>c. c \<in> set cs) s)"

definition startswith :: "string \<Rightarrow> string \<Rightarrow> bool" where
  "startswith s p = (take (length p) s = p)"

definition endswith :: "string \<Rightarrow> string \<Rightarrow> bool" where
  "endswith s p = (length p \<le> length s \<and> drop (length s - length p) s = p)"

text \<open>\<^verbatim>\<open>sub in s\<close> for strings.\<close>

fun contains :: "string \<Rightarrow> string \<Rightarrow> bool" where
  "contains [] sub = (sub = [])"
| "contains (c # cs) sub = (startswith (c # cs) sub \<or> contains cs sub)"

text \<open>\<^verbatim>\<open>s.count(c)\<close> for a one-character argument.\<close>

definition count_char :: "string \<Rightarrow> char \<Rightarrow> nat" where
  "count_char s c = length (filter (\<lambda>x. x = c) s)"

text \<open>\<^verbatim>\<open>s.split(c)\<close> for a one-character separator: always at least one piece.\<close>

fun split_on :: "char \<Rightarrow> string \<Rightarrow> string list" where
  "split_on sep [] = [[]]"
| "split_on sep (c # cs) =
     (if c = sep then [] # split_on sep cs
      else (case split_on sep cs of
              [] \<Rightarrow> [[c]]
            | p # ps \<Rightarrow> (c # p) # ps))"

text \<open>\<^verbatim>\<open>d.get(key, default)\<close> and \<^verbatim>\<open>d[key] = v\<close> on the association list.\<close>

definition dict_get :: "(string \<times> pyval) list \<Rightarrow> string \<Rightarrow> pyval \<Rightarrow> pyval" where
  "dict_get d k dflt = (case map_of d k of None \<Rightarrow> dflt | Some v \<Rightarrow> v)"

fun dict_set :: "(string \<times> pyval) list \<Rightarrow> string \<Rightarrow> pyval \<Rightarrow> (string \<times> pyval) list" where
  "dict_set [] k v = [(k, v)]"
| "dict_set ((k', v') # d) k v = (if k' = k then (k, v) # d else (k', v') # dict_set d k v)"

section \<open>ResourceLoader (core/loader.py)\<close>

record resource_loader =
  resources :: "pyval list"
  stat_total :: nat
  stat_valid :: nat
  stat_invalid :: nat
  stat_duplicates :: nat

text \<open>
  \<^verbatim>\<open>resource.get('url', '').strip().lower()\<close>: an entry that is not a \<^verbatim>\<open>dict\<close> has no
  \<^verbatim>\<open>get\<close>, and a value that is not a \<^verbatim>\<open>str\<close> has no \<^verbatim>\<open>strip\<close>; both raise
  \<^verbatim>\<open>AttributeError\<close>.
\<close>

fun normalized_url :: "pyval \<Rightarrow> error + string" where
  "normalized_url (PDict d) =
     (case dict_get d ''url'' (PStr '''') of
        PStr s \<Rightarrow> Inr (lower (strip s))
      | v \<Rightarrow> Inl (no_attribute v ''strip''))"
| "normalized_url v = Inl (no_attribute v ''get'')"

text \<open>
  The loop of \<^verbatim>\<open>deduplicate_resources\<close>, with its three pieces of state: the set
  \<^verbatim>\<open>seen_urls\<close>, the list \<^verbatim>\<open>unique_resources\<close> and the counter
  \<^verbatim>\<open>self.stats['duplicates']\<close>.
\<close>

fun dedup_loop ::
  "pyval list \<Rightarrow> string set \<Rightarrow> pyval list \<Rightarrow> nat \<Rightarrow> error + (pyval list \<times> nat)" where
  "dedup_loop [] seen_urls unique_resources dups = Inr (unique_resources, dups)"
| "dedup_loop (resource # rest) seen_urls unique_resources dups =
     (case normalized_url resource of
        Inl e \<Rightarrow> Inl e
      | Inr url \<Rightarrow>
          if url \<notin> seen_urls
          then dedup_loop rest (insert url seen_urls) (unique_resources @ [resource]) dups
          else dedup_loop rest seen_urls unique_resources (dups + 1))"

definition deduplicate_resources :: "resource_loader \<Rightarrow> pyval list \<Rightarrow> error + (pyval list \<times> resource_loader)" where
  "deduplicate_resources self rs =
     (case dedup_loop rs {} [] (stat_duplicates self) of
        Inl e \<Rightarrow> Inl e
      | Inr (unique_resources, dups) \<Rightarrow> Inr (unique_resources, self\<lparr>stat_duplicates := dups\<rparr>))"




section \<open>The URL parser used by the detector (urllib.parse)\<close>

text \<open>
  \<^verbatim>\<open>core/detector.py\<close> reads a URL through the standard library's \<^verbatim>\<open>urlparse\<close>. The
  model follows \<^verbatim>\<open>urlsplit\<close> and \<^verbatim>\<open>urlparse\<close> step by step: control characters
  and spaces are stripped on the left, TAB, CR and LF are removed, the scheme is split
  off, then the network location, the fragment, the query and the parameters of the
  last path segment. A network location with an unbalanced square bracket raises
  \<^verbatim>\<open>ValueError\<close>. The later releases' check that a bracketed host is an IP literal is
  not part of the model.
\<close>

record parse_result =
  url_scheme :: string
  url_netloc :: string
  url_path :: string
  url_params :: string
  url_query :: string
  url_fragment :: string

definition is_ascii_alpha :: "char \<Rightarrow> bool" where
  "is_ascii_alpha c = (code_in c 65 90 \<or> code_in c 97 122)"

definition is_scheme_char :: "char \<Rightarrow> bool" where
  "is_scheme_char c = (is_ascii_alpha c \<or> code_in c 48 57 \<or> c \<in> set ''+-.'')"

definition uses_params :: "string list" where
  "uses_params = ['''', ''ftp'', ''hdl'', ''prospero'', ''http'', ''imap'', ''https'',
     ''shttp'', ''rtsp'', ''rtspu'', ''sip'', ''sips'', ''mms'', ''sftp'', ''tel'']"

text \<open>\<^verbatim>\<open>s.find(c)\<close> as an option, and \<^verbatim>\<open>s.rfind(c)\<close> for a character that occurs.\<close>

definition find_char :: "string \<Rightarrow> char \<Rightarrow> nat option" where
  "find_char s c = (if c \<in> set s then Some (length (takeWhile (\<lambda>x. x \<noteq> c) s)) else None)"

definition rfind_char :: "string \<Rightarrow> char \<Rightarrow> nat" where
  "rfind_char s c = length s - 1 - length (takeWhile (\<lambda>x. x \<noteq> c) (rev s))"

text \<open>\<^verbatim>\<open>before, after = s.split(c, 1)\<close> for a character that occurs in \<open>s\<close>.\<close>

definition split_first :: "string \<Rightarrow> char \<Rightarrow> string \<times> string" where
  "split_first s c = (takeWhile (\<lambda>x. x \<noteq> c) s, drop 1 (dropWhile (\<lambda>x. x \<noteq> c) s))"

definition split_scheme :: "string \<Rightarrow> string \<times> string" where
  "split_scheme url =
     (case find_char url CHR '':'' of
        None \<Rightarrow> ('''', url)
      | Some i \<Rightarrow>
          if 0 < i \<and> is_ascii_alpha (hd url) \<and> list_all is_scheme_char (take i url)
          then (lower (take i url), drop (i + 1) url)
          else ('''', url))"

definition splitnetloc :: "string \<Rightarrow> string \<times> string" where
  "splitnetloc url =
     (takeWhile (\<lambda>c. c \<notin> set ''/?#'') (drop 2 url),
      dropWhile (\<lambda>c. c \<notin> set ''/?#'') (drop 2 url))"

definition urlsplit :: "string \<Rightarrow> error + (string \<times> string \<times> string \<times> string \<times> string)" where
  "urlsplit url0 =
     (let url1 = dropWhile (\<lambda>c. code_in c 0 32) url0;
          url2 = filter (\<lambda>c. c \<notin> set [CHR 0x09, CHR 0x0D, CHR 0x0A]) url1;
          (scheme, url3) = split_scheme url2;
          (netloc, url4) = (if take 2 url3 = ''//'' then splitnetloc url3 else ('''', url3))
      in if (CHR ''['' \<in> set netloc \<and> CHR '']'' \<notin> set netloc)
            \<or> (CHR '']'' \<in> set netloc \<and> CHR ''['' \<notin> set netloc)
         then Inl (ValueError ''Invalid IPv6 URL'')
         else
           let (url5, fragment) =
                 (if CHR ''#'' \<in> set url4 then split_first url4 CHR ''#'' else (url4, ''''));
               (url6, query) =
                 (if CHR ''?'' \<in> set url5 then split_first url5 CHR ''?'' else (url5, ''''))
           in Inr (scheme, netloc, url6, query, fragment))"

definition splitparams :: "string \<Rightarrow> string \<times> string" where
  "splitparams url =
     (if CHR ''/'' \<in> set url
      then (case find_char (drop (rfind_char url CHR ''/'') url) CHR '';'' of
              None \<Rightarrow> (url, '''')
            | Some k \<Rightarrow>
                (take (rfind_char url CHR ''/'' + k) url,
                 drop (rfind_char url CHR ''/'' + k + 1) url))
      else split_first url CHR '';'')"

definition urlparse :: "string \<Rightarrow> error + parse_result" where
  "urlparse url =
     (case urlsplit url of
        Inl e \<Rightarrow> Inl e
      | Inr (scheme, netloc, url', query, fragment) \<Rightarrow>
          let (url'', params) =
                (if scheme \<in> set uses_params \<and> CHR '';'' \<in> set url'
                 then splitparams url' else (url', ''''))
          in Inr \<lparr>url_scheme = scheme, url_netloc = netloc, url_path = url'',
                   url_params = params, url_query = query, url_fragment = fragment\<rparr>)"

section \<open>TypeDetector (core/detector.py)\<close>

definition TYPE_GITHUB :: string where "TYPE_GITHUB = ''github-repo''"
definition TYPE_YOUTUBE :: string where "TYPE_YOUTUBE = ''youtube-video''"
definition TYPE_BLOG :: string where "TYPE_BLOG = ''blog-post''"
definition TYPE_ARTICLE :: string where "TYPE_ARTICLE = ''article''"
definition TYPE_UNKNOWN :: string where "TYPE_UNKNOWN = ''unknown''"

type_synonym metadata = "(string \<times> string) list"

record type_detector =
  detection_stats :: "string \<Rightarrow> nat"

definition is_github :: "string \<Rightarrow> string \<Rightarrow> bool" where
  "is_github domain path = (contains domain ''github.com'' \<and> count_char path CHR ''/'' \<ge> 2)"

definition is_youtube :: "string \<Rightarrow> string \<Rightarrow> bool" where
  "is_youtube domain path =
     ((contains domain ''youtube.com'' \<and> contains path ''/watch'') \<or> contains domain ''youtu.be'')"

definition blog_indicators :: "string list" where
  "blog_indicators = [''medium.com'', ''dev.to'', ''substack.com'', ''hashnode'', ''blog.'',
     ''blogs.'', ''/blog/'', ''/post/'', ''/article/'']"

definition is_blog :: "string \<Rightarrow> string \<Rightarrow> bool" where
  "is_blog domain path =
     list_ex (\<lambda>indicator. contains domain indicator \<or> contains path indicator) blog_indicators"

text \<open>\<^verbatim>\<open>[p for p in parsed.path.split('/') if p]\<close>\<close>

definition path_parts :: "string \<Rightarrow> string list" where
  "path_parts p = filter (\<lambda>x. x \<noteq> []) (split_on CHR ''/'' p)"

definition parse_github_url :: "string \<Rightarrow> error + metadata" where
  "parse_github_url url =
     (case urlparse url of
        Inl e \<Rightarrow> Inl e
      | Inr parsed \<Rightarrow>
          (case path_parts (url_path parsed) of
             owner # repo # _ \<Rightarrow>
               Inr [(''domain'', ''github.com''), (''owner'', owner), (''repo'', repo),
                    (''full_name'', owner @ ''/'' @ repo)]
           | _ \<Rightarrow> Inr [(''domain'', ''github.com'')]))"

text \<open>
  \<^verbatim>\<open>re.search(r'[?&]v=([^&]+)', url)\<close>: the leftmost \<^verbatim>\<open>?\<close> or \<^verbatim>\<open>&\<close> that is
  followed by \<^verbatim>\<open>v=\<close> and at least one character other than \<^verbatim>\<open>&\<close>; the group is the
  longest run of such characters.
\<close>

fun search_video_id :: "string \<Rightarrow> string option" where
  "search_video_id [] = None"
| "search_video_id (c # cs) =
     (if (c = CHR ''?'' \<or> c = CHR ''&'') \<and> startswith cs ''v=''
         \<and> takeWhile (\<lambda>x. x \<noteq> CHR ''&'') (drop 2 cs) \<noteq> []
      then Some (takeWhile (\<lambda>x. x \<noteq> CHR ''&'') (drop 2 cs))
      else search_video_id cs)"

definition parse_youtube_url :: "string \<Rightarrow> error + metadata" where
  "parse_youtube_url url =
     (case urlparse url of
        Inl e \<Rightarrow> Inl e
      | Inr parsed \<Rightarrow>
          if contains (url_netloc parsed) ''youtube.com''
          then (case search_video_id url of
                  Some v \<Rightarrow> Inr [(''domain'', ''youtube.com''), (''video_id'', v)]
                | None \<Rightarrow> Inr [(''domain'', ''youtube.com'')])
          else if contains (url_netloc parsed) ''youtu.be''
          then (case path_parts (url_path parsed) of
                  v # _ \<Rightarrow> Inr [(''domain'', ''youtube.com''), (''video_id'', v)]
                | [] \<Rightarrow> Inr [(''domain'', ''youtube.com'')])
          else Inr [(''domain'', ''youtube.com'')])"

text \<open>
  \<^verbatim>\<open>detect_type\<close>: the branches in the source's order, then the increment of
  \<^verbatim>\<open>self.detection_stats[resource_type]\<close>. An exception of the URL parser leaves the
  method before the counter is touched.
\<close>

definition detect_type :: "type_detector \<Rightarrow> string \<Rightarrow> error + ((string \<times> metadata) \<times> type_detector)" where
  "detect_type self url0 =
     (let url = strip url0 in
      case urlparse url of
        Inl e \<Rightarrow> Inl e
      | Inr parsed \<Rightarrow>
          let domain = lower (url_netloc parsed);
              path = lower (url_path parsed);
              classified =
                (if is_github domain path
                 then (case parse_github_url url of
                         Inl e \<Rightarrow> Inl e | Inr md \<Rightarrow> Inr (TYPE_GITHUB, md))
                 else if is_youtube domain path
                 then (case parse_youtube_url url of
                         Inl e \<Rightarrow> Inl e | Inr md \<Rightarrow> Inr (TYPE_YOUTUBE, md))
                 else if is_blog domain path
                 then Inr (TYPE_BLOG, [(''domain'', domain)])
                 else Inr (TYPE_ARTICLE, [(''domain'', domain)]))
          in case classified of
               Inl e \<Rightarrow> Inl e
             | Inr (resource_type, md) \<Rightarrow>
                 Inr ((resource_type, md),
                      self\<lparr>detection_stats :=
                        (detection_stats self)
                          (resource_type := detection_stats self resource_type + 1)\<rparr>))"

text \<open>A detector as \<^verbatim>\<open>__init__\<close> leaves it: every counter is zero.\<close>

definition new_detector :: type_detector where
  "new_detector = \<lparr>detection_stats = (\<lambda>_. 0)\<rparr>"
section \<open>The JSON reader (json.loads)\<close>

text \<open>
  \<^verbatim>\<open>core/loader.py\<close> and \<^verbatim>\<open>core/storage.py\<close> read JSON through the standard library.
  The reader is modelled in two passes over the text, both by structural recursion: a
  lexer, one character at a time, and a stack machine over the tokens. \<open>None\<close> stands
  for \<^verbatim>\<open>json.JSONDecodeError\<close>. The grammar is the one \<^verbatim>\<open>json.loads\<close> accepts: the
  JSON grammar with the literals \<^verbatim>\<open>NaN\<close>, \<^verbatim>\<open>Infinity\<close> and \<^verbatim>\<open>-Infinity\<close>, and no
  control character inside a string. An escape \<^verbatim>\<open>\uXXXX\<close> above code point 255 denotes
  a character that the alphabet of the model does not have and is read as \<^verbatim>\<open>?\<close>.
\<close>

datatype token =
    TLBracket | TRBracket | TLBrace | TRBrace | TComma | TColon
  | TString string
  | TNumber string
  | TName string

datatype lexmode =
    LIdle
  | LString string
  | LEscape string
  | LUnicode string string
  | LNumber string
  | LName string

definition json_ws :: "char \<Rightarrow> bool" where
  "json_ws c = (c \<in> set [CHR '' '', CHR 0x09, CHR 0x0A, CHR 0x0D])"

definition is_digit :: "char \<Rightarrow> bool" where
  "is_digit c = code_in c 48 57"

definition is_hex_digit :: "char \<Rightarrow> bool" where
  "is_hex_digit c = (is_digit c \<or> code_in c 65 70 \<or> code_in c 97 102)"

definition number_char :: "char \<Rightarrow> bool" where
  "number_char c = (is_digit c \<or> c \<in> set ''+-.eE'')"

definition digit_value :: "char \<Rightarrow> nat" where
  "digit_value c =
     (if is_digit c then of_char c - 48
      else if code_in c 65 70 then of_char c - 55
      else of_char c - 87)"

definition digits_value :: "nat \<Rightarrow> string \<Rightarrow> nat" where
  "digits_value base ds = foldl (\<lambda>a c. base * a + digit_value c) 0 ds"

text \<open>
  A number lexeme is the whole of a match of
  \<^verbatim>\<open>-?(0|[1-9][0-9]*)(\.[0-9]+)?([eE][-+]?[0-9]+)?\<close>.
\<close>

definition valid_exponent :: "string \<Rightarrow> bool" where
  "valid_exponent s =
     (case s of
        [] \<Rightarrow> True
      | e # r \<Rightarrow>
          (e = CHR ''e'' \<or> e = CHR ''E'')
          \<and> (let ds = (case r of
                          [] \<Rightarrow> []
                        | sg # r' \<Rightarrow> if sg = CHR ''-'' \<or> sg = CHR ''+'' then r' else r)
             in ds \<noteq> [] \<and> list_all is_digit ds))"

definition valid_fraction :: "string \<Rightarrow> bool" where
  "valid_fraction s =
     (case s of
        [] \<Rightarrow> True
      | d # r \<Rightarrow>
          if d = CHR ''.''
          then takeWhile is_digit r \<noteq> [] \<and> valid_exponent (dropWhile is_digit r)
          else valid_exponent s)"

definition valid_number :: "string \<Rightarrow> bool" where
  "valid_number n =
     (let u = (case n of [] \<Rightarrow> [] | c # r \<Rightarrow> if c = CHR ''-'' then r else n);
          ip = takeWhile is_digit u
      in ip \<noteq> [] \<and> (ip = ''0'' \<or> hd ip \<noteq> CHR ''0'') \<and> valid_fraction (dropWhile is_digit u))"

text \<open>\<^verbatim>\<open>int(lexeme)\<close> without fraction and exponent, a float otherwise.\<close>

definition number_value :: "string \<Rightarrow> pyval" where
  "number_value n =
     (if list_ex (\<lambda>c. c \<in> set ''.eE'') n then PFloat n
      else (case n of
              [] \<Rightarrow> PInt 0
            | c # r \<Rightarrow> if c = CHR ''-'' then PInt (- int (digits_value 10 r))
                       else PInt (int (digits_value 10 n))))"

definition name_value :: "string \<Rightarrow> pyval option" where
  "name_value w =
     (if w = ''null'' then Some PNone
      else if w = ''true'' then Some (PBool True)
      else if w = ''false'' then Some (PBool False)
      else if w = ''NaN'' \<or> w = ''Infinity'' \<or> w = ''-Infinity'' then Some (PFloat w)
      else None)"

definition escape_char :: "char \<Rightarrow> char option" where
  "escape_char c =
     (if c = CHR 0x22 \<or> c = CHR 0x5C \<or> c = CHR ''/'' then Some c
      else if c = CHR ''b'' then Some (CHR 0x08)
      else if c = CHR ''f'' then Some (CHR 0x0C)
      else if c = CHR ''n'' then Some (CHR 0x0A)
      else if c = CHR ''r'' then Some (CHR 0x0D)
      else if c = CHR ''t'' then Some (CHR 0x09)
      else None)"

definition unicode_char :: "string \<Rightarrow> char" where
  "unicode_char hex = (if digits_value 16 hex < 256 then char_of (digits_value 16 hex) else CHR ''?'')"

text \<open>A number or a name ends at the first character that cannot continue it.\<close>

definition number_token :: "string \<Rightarrow> token option" where
  "number_token n = (if valid_number n then Some (TNumber n) else None)"

definition name_token :: "string \<Rightarrow> token option" where
  "name_token w = (if name_value w \<noteq> None then Some (TName w) else None)"

definition lex_idle :: "token list \<Rightarrow> char \<Rightarrow> (lexmode \<times> token list) option" where
  "lex_idle toks c =
     (if json_ws c then Some (LIdle, toks)
      else if c = CHR ''['' then Some (LIdle, toks @ [TLBracket])
      else if c = CHR '']'' then Some (LIdle, toks @ [TRBracket])
      else if c = CHR ''{'' then Some (LIdle, toks @ [TLBrace])
      else if c = CHR ''}'' then Some (LIdle, toks @ [TRBrace])
      else if c = CHR '','' then Some (LIdle, toks @ [TComma])
      else if c = CHR '':'' then Some (LIdle, toks @ [TColon])
      else if c = CHR 0x22 then Some (LString [], toks)
      else if c = CHR ''-'' \<or> is_digit c then Some (LNumber [c], toks)
      else if is_ascii_alpha c then Some (LName [c], toks)
      else None)"

fun lex_step :: "lexmode \<Rightarrow> token list \<Rightarrow> char \<Rightarrow> (lexmode \<times> token list) option" where
  "lex_step LIdle toks c = lex_idle toks c"
| "lex_step (LString acc) toks c =
     (if c = CHR 0x22 then Some (LIdle, toks @ [TString acc])
      else if c = CHR 0x5C then Some (LEscape acc, toks)
      else if code_in c 0 31 then None
      else Some (LString (acc @ [c]), toks))"
| "lex_step (LEscape acc) toks c =
     (case escape_char c of
        Some d \<Rightarrow> Some (LString (acc @ [d]), toks)
      | None \<Rightarrow> if c = CHR ''u'' then Some (LUnicode acc [], toks) else None)"
| "lex_step (LUnicode acc hex) toks c =
     (if \<not> is_hex_digit c then None
      else if length hex = 3 then Some (LString (acc @ [unicode_char (hex @ [c])]), toks)
      else Some (LUnicode acc (hex @ [c]), toks))"
| "lex_step (LNumber n) toks c =
     (if number_char c then Some (LNumber (n @ [c]), toks)
      else if n = ''-'' \<and> c = CHR ''I'' then Some (LName ''-I'', toks)
      else (case number_token n of
              None \<Rightarrow> None
            | Some t \<Rightarrow> lex_idle (toks @ [t]) c))"
| "lex_step (LName w) toks c =
     (if is_ascii_alpha c then Some (LName (w @ [c]), toks)
      else (case name_token w of
              None \<Rightarrow> None
            | Some t \<Rightarrow> lex_idle (toks @ [t]) c))"

fun lex_run :: "lexmode \<Rightarrow> token list \<Rightarrow> string \<Rightarrow> (lexmode \<times> token list) option" where
  "lex_run m toks [] = Some (m, toks)"
| "lex_run m toks (c # cs) =
     (case lex_step m toks c of
        None \<Rightarrow> None
      | Some (m', toks') \<Rightarrow> lex_run m' toks' cs)"

fun lex_end :: "lexmode \<Rightarrow> token list \<Rightarrow> token list option" where
  "lex_end LIdle toks = Some toks"
| "lex_end (LNumber n) toks = map_option (\<lambda>t. toks @ [t]) (number_token n)"
| "lex_end (LName w) toks = map_option (\<lambda>t. toks @ [t]) (name_token w)"
| "lex_end _ toks = None"

definition tokens :: "string \<Rightarrow> token list option" where
  "tokens s =
     (case lex_run LIdle [] s of
        None \<Rightarrow> None
      | Some (m, toks) \<Rightarrow> lex_end m toks)"

text \<open>
  The stack machine. A frame is an array under construction, an object under
  construction, or an object whose next member has its name and waits for its value.
\<close>

datatype frame =
    FArray "pyval list"
  | FObject "(string \<times> pyval) list"
  | FMember "(string \<times> pyval) list" string

datatype pstate =
    PValue | PValueOrEnd | PNameOrEnd | PName | PColon | PCommaOrEnd | PDone pyval

fun complete :: "pyval \<Rightarrow> frame list \<Rightarrow> (pstate \<times> frame list) option" where
  "complete v [] = Some (PDone v, [])"
| "complete v (FArray xs # st) = Some (PCommaOrEnd, FArray (xs @ [v]) # st)"
| "complete v (FMember d k # st) = Some (PCommaOrEnd, FObject (dict_set d k v) # st)"
| "complete v (FObject d # st) = None"

fun scalar_value :: "token \<Rightarrow> pyval option" where
  "scalar_value (TString s) = Some (PStr s)"
| "scalar_value (TNumber n) = Some (number_value n)"
| "scalar_value (TName w) = name_value w"
| "scalar_value _ = None"

definition parse_value :: "frame list \<Rightarrow> token \<Rightarrow> (pstate \<times> frame list) option" where
  "parse_value st t =
     (if t = TLBracket then Some (PValueOrEnd, FArray [] # st)
      else if t = TLBrace then Some (PNameOrEnd, FObject [] # st)
      else (case scalar_value t of None \<Rightarrow> None | Some v \<Rightarrow> complete v st))"

fun parse_name :: "frame list \<Rightarrow> token \<Rightarrow> (pstate \<times> frame list) option" where
  "parse_name (FObject d # st) (TString k) = Some (PColon, FMember d k # st)"
| "parse_name _ _ = None"

fun parse_close :: "frame list \<Rightarrow> token \<Rightarrow> (pstate \<times> frame list) option" where
  "parse_close (FArray xs # st) TRBracket = complete (PList xs) st"
| "parse_close (FObject d # st) TRBrace = complete (PDict d) st"
| "parse_close _ _ = None"

fun parse_step :: "pstate \<Rightarrow> frame list \<Rightarrow> token \<Rightarrow> (pstate \<times> frame list) option" where
  "parse_step PValue st t = parse_value st t"
| "parse_step PValueOrEnd st t = (if t = TRBracket then parse_close st t else parse_value st t)"
| "parse_step PNameOrEnd st t = (if t = TRBrace then parse_close st t else parse_name st t)"
| "parse_step PName st t = parse_name st t"
| "parse_step PColon st t = (if t = TColon then Some (PValue, st) else None)"
| "parse_step PCommaOrEnd st t =
     (if t = TComma
      then (case st of
              FArray xs # _ \<Rightarrow> Some (PValue, st)
            | FObject d # _ \<Rightarrow> Some (PName, st)
            | _ \<Rightarrow> None)
      else parse_close st t)"
| "parse_step (PDone v) st t = None"

fun parse_run :: "pstate \<Rightarrow> frame list \<Rightarrow> token list \<Rightarrow> (pstate \<times> frame list) option" where
  "parse_run p st [] = Some (p, st)"
| "parse_run p st (t # ts) =
     (case parse_step p st t of
        None \<Rightarrow> None
      | Some (p', st') \<Rightarrow> parse_run p' st' ts)"

definition parse_tokens :: "token list \<Rightarrow> pyval option" where
  "parse_tokens toks =
     (case parse_run PValue [] toks of
        Some (PDone v, []) \<Rightarrow> Some v
      | _ \<Rightarrow> None)"

definition json_loads :: "string \<Rightarrow> pyval option" where
  "json_loads s = (case tokens s of None \<Rightarrow> None | Some toks \<Rightarrow> parse_tokens toks)"
section \<open>Text of a value (str, repr and f-strings)\<close>

definition digit_char :: "nat \<Rightarrow> char" where
  "digit_char n = char_of (48 + n)"

fun show_nat :: "nat \<Rightarrow> string" where
  "show_nat n = (if n < 10 then [digit_char n] else show_nat (n div 10) @ [digit_char (n mod 10)])"

definition show_int :: "int \<Rightarrow> string" where
  "show_int i = (if i < 0 then ''-'' @ show_nat (nat (- i)) else show_nat (nat i))"

fun join :: "string \<Rightarrow> string list \<Rightarrow> string" where
  "join sep [] = []"
| "join sep [x] = x"
| "join sep (x # y # ys) = x @ sep @ join sep (y # ys)"

definition hex_char :: "nat \<Rightarrow> char" where
  "hex_char n = (if n < 10 then char_of (48 + n) else char_of (87 + n))"

text \<open>
  \<^verbatim>\<open>repr\<close> of a string: double quotes when the text has a single quote and no double
  quote, single quotes otherwise; the quote and the backslash are escaped, TAB, LF and
  CR have their short escapes, every other unprintable character is \<^verbatim>\<open>\xhh\<close>.
\<close>

definition printable :: "char \<Rightarrow> bool" where
  "printable c = (\<not> code_in c 0 31 \<and> \<not> code_in c 127 160 \<and> \<not> code_in c 173 173)"

definition repr_char :: "char \<Rightarrow> char \<Rightarrow> string" where
  "repr_char quote c =
     (if c = quote \<or> c = CHR 0x5C then [CHR 0x5C, c]
      else if c = CHR 0x09 then [CHR 0x5C, CHR ''t'']
      else if c = CHR 0x0A then [CHR 0x5C, CHR ''n'']
      else if c = CHR 0x0D then [CHR 0x5C, CHR ''r'']
      else if \<not> printable c
      then [CHR 0x5C, CHR ''x'', hex_char (of_char c div 16), hex_char (of_char c mod 16)]
      else [c])"

definition repr_str :: "string \<Rightarrow> string" where
  "repr_str s =
     (let quote = (if CHR 0x27 \<in> set s \<and> CHR 0x22 \<notin> set s then CHR 0x22 else CHR 0x27)
      in [quote] @ concat (map (repr_char quote) s) @ [quote])"

fun py_repr :: "pyval \<Rightarrow> string" where
  "py_repr PNone = ''None''"
| "py_repr (PBool b) = (if b then ''True'' else ''False'')"
| "py_repr (PInt i) = show_int i"
| "py_repr (PFloat f) = f"
| "py_repr (PStr s) = repr_str s"
| "py_repr (PList xs) = ''['' @ join '', '' (map py_repr xs) @ '']''"
| "py_repr (PDict d) =
     ''{'' @ join '', '' (map (\<lambda>kv. repr_str (fst kv) @ '': '' @ py_repr (snd kv)) d) @ ''}''"

fun py_str :: "pyval \<Rightarrow> string" where
  "py_str (PStr s) = s"
| "py_str v = py_repr v"

text \<open>
  Truth of a value in a condition. A float is zero when the digits of its mantissa are
  all \<^verbatim>\<open>0\<close>.
\<close>

fun truthy :: "pyval \<Rightarrow> bool" where
  "truthy PNone = False"
| "truthy (PBool b) = b"
| "truthy (PInt i) = (i \<noteq> 0)"
| "truthy (PFloat f) =
     (\<not> (list_ex is_digit f
         \<and> list_all (\<lambda>c. c = CHR ''0'')
             (filter is_digit (takeWhile (\<lambda>c. c \<noteq> CHR ''e'' \<and> c \<noteq> CHR ''E'') f))))"
| "truthy (PStr s) = (s \<noteq> [])"
| "truthy (PList xs) = (xs \<noteq> [])"
| "truthy (PDict d) = (d \<noteq> [])"

section \<open>The world outside the process: files and the clock\<close>

text \<open>
  The file system is a finite table of text files and a list of directories, both by
  path. \<open>fs_faults\<close> lists the paths at which the operating system refuses an
  operation, with the error it raises (a permission, a full device). The clock is a
  counter of the readings taken so far; the text of the \<open>n\<close>-th reading,
  \<^verbatim>\<open>datetime.now().isoformat()\<close>, is given by a function \<open>now\<close> that the operations
  take as their first argument.
\<close>

record world =
  fs_files :: "(string \<times> string) list"
  fs_dirs :: "string list"
  fs_faults :: "(string \<times> error) list"
  clock_ticks :: nat

type_synonym clock = "nat \<Rightarrow> string"

definition read_clock :: "clock \<Rightarrow> world \<Rightarrow> string \<times> world" where
  "read_clock now w = (now (clock_ticks w), w\<lparr>clock_ticks := clock_ticks w + 1\<rparr>)"

definition is_file :: "world \<Rightarrow> string \<Rightarrow> bool" where
  "is_file w p = (p \<in> set (map fst (fs_files w)))"

definition is_dir :: "world \<Rightarrow> string \<Rightarrow> bool" where
  "is_dir w p = (p \<in> set (fs_dirs w))"

text \<open>\<^verbatim>\<open>Path.exists()\<close>\<close>

definition path_exists :: "world \<Rightarrow> string \<Rightarrow> bool" where
  "path_exists w p = (is_file w p \<or> is_dir w p)"

definition errno_message :: "string \<Rightarrow> string \<Rightarrow> string" where
  "errno_message what p = what @ '': '' @ repr_str p"

text \<open>\<^verbatim>\<open>open(path, 'r', encoding='utf-8').read()\<close>\<close>

definition read_text :: "world \<Rightarrow> string \<Rightarrow> error + string" where
  "read_text w p =
     (case map_of (fs_faults w) p of
        Some e \<Rightarrow> Inl e
      | None \<Rightarrow>
          (case map_of (fs_files w) p of
             Some text \<Rightarrow> Inr text
           | None \<Rightarrow>
               if is_dir w p then Inl (OSError (errno_message ''[Errno 21] Is a directory'' p))
               else Inl (FileNotFoundError
                           (errno_message ''[Errno 2] No such file or directory'' p))))"

text \<open>
  \<^verbatim>\<open>Path.write_text(text)\<close> for the file \<open>name\<close> in the directory \<open>dir\<close>: creates the
  file or replaces its text.
\<close>

definition join_path :: "string \<Rightarrow> string \<Rightarrow> string" where
  "join_path dir name = dir @ ''/'' @ name"

definition write_text :: "world \<Rightarrow> string \<Rightarrow> string \<Rightarrow> string \<Rightarrow> error + world" where
  "write_text w dir name text =
     (let p = join_path dir name in
      case map_of (fs_faults w) p of
        Some e \<Rightarrow> Inl e
      | None \<Rightarrow>
          if is_dir w p then Inl (OSError (errno_message ''[Errno 21] Is a directory'' p))
          else if \<not> is_dir w dir
          then Inl (FileNotFoundError (errno_message ''[Errno 2] No such file or directory'' p))
          else Inr (w\<lparr>fs_files := (p, text) # filter (\<lambda>f. fst f \<noteq> p) (fs_files w)\<rparr>))"

text \<open>\<^verbatim>\<open>Path.mkdir(parents=True, exist_ok=True)\<close>\<close>

definition mkdir :: "world \<Rightarrow> string \<Rightarrow> error + world" where
  "mkdir w p =
     (if is_dir w p then Inr w
      else if is_file w p then Inl (OSError (errno_message ''[Errno 17] File exists'' p))
      else (case map_of (fs_faults w) p of
              Some e \<Rightarrow> Inl e
            | None \<Rightarrow> Inr (w\<lparr>fs_dirs := p # fs_dirs w\<rparr>)))"

section \<open>ResourceLoader: reading the manifest\<close>

text \<open>
  One fragment of \<^verbatim>\<open>_parse_multi_array\<close>: the body of its loop, giving the entries the
  fragment adds to \<^verbatim>\<open>resources\<close>.
\<close>

definition recover_part :: "string \<Rightarrow> pyval list" where
  "recover_part part0 =
     (let part1 = strip part0 in
      if part1 = [] then []
      else
        let part2 = (if \<not> endswith part1 '']'' then part1 @ '']'' else part1);
            part = (if \<not> startswith part2 ''['' then ''['' @ part2 else part2)
        in case json_loads part of
             Some (PList xs) \<Rightarrow> xs
           | Some (PDict d) \<Rightarrow> [PDict d]
           | Some _ \<Rightarrow> []
           | None \<Rightarrow>
               (let obj_part = strip (strip_chars ''[]'' part) in
                if obj_part = [] then []
                else (case json_loads obj_part of
                        Some (PDict d) \<Rightarrow> [PDict d]
                      | _ \<Rightarrow> [])))"

fun parse_multi_array_loop :: "string list \<Rightarrow> pyval list \<Rightarrow> pyval list" where
  "parse_multi_array_loop [] rs = rs"
| "parse_multi_array_loop (part # parts) rs = parse_multi_array_loop parts (rs @ recover_part part)"

definition parse_multi_array :: "string \<Rightarrow> pyval list" where
  "parse_multi_array content = parse_multi_array_loop (split_on CHR '']'' content) []"

text \<open>
  \<^verbatim>\<open>load_resources\<close>. The \<^verbatim>\<open>ValueError\<close> raised inside the \<^verbatim>\<open>try\<close> is not a
  \<^verbatim>\<open>JSONDecodeError\<close>, so the handler does not catch it.
\<close>

definition load_resources :: "world \<Rightarrow> resource_loader \<Rightarrow> string \<Rightarrow> error + (pyval list \<times> resource_loader)" where
  "load_resources w self file_path =
     (if \<not> path_exists w file_path
      then Inl (FileNotFoundError (''Resource file not found: '' @ file_path))
      else (case read_text w file_path of
              Inl e \<Rightarrow> Inl e
            | Inr content \<Rightarrow>
                (case (case json_loads content of
                         Some (PList xs) \<Rightarrow> Inr xs
                       | Some (PDict d) \<Rightarrow> Inr [PDict d]
                       | Some _ \<Rightarrow> Inl (ValueError ''Unexpected JSON structure'')
                       | None \<Rightarrow> Inr (parse_multi_array content)) of
                   Inl e \<Rightarrow> Inl e
                 | Inr rs \<Rightarrow> Inr (rs, self\<lparr>resources := rs, stat_total := length rs\<rparr>))))"

text \<open>
  \<^verbatim>\<open>validate_resource\<close>. \<^verbatim>\<open>'url' not in resource\<close> is a key test on a \<^verbatim>\<open>dict\<close>, an
  element test on a \<^verbatim>\<open>list\<close>, a substring test on a \<^verbatim>\<open>str\<close> and a \<^verbatim>\<open>TypeError\<close>
  on anything else; \<^verbatim>\<open>resource['url']\<close> is defined on a \<^verbatim>\<open>dict\<close> only.
\<close>

definition valid_url_value :: "pyval \<Rightarrow> bool" where
  "valid_url_value v =
     (truthy v \<and> strip (py_str v) \<noteq> []
      \<and> (startswith (strip (py_str v)) ''http://'' \<or> startswith (strip (py_str v)) ''https://''))"

fun validate_resource :: "pyval \<Rightarrow> error + bool" where
  "validate_resource (PDict d) =
     (case map_of d ''url'' of
        None \<Rightarrow> Inr False
      | Some v \<Rightarrow> Inr (valid_url_value v))"
| "validate_resource (PList xs) =
     (if PStr ''url'' \<notin> set xs then Inr False
      else Inl (TypeError ''list indices must be integers or slices, not str''))"
| "validate_resource (PStr s) =
     (if \<not> contains s ''url'' then Inr False
      else Inl (TypeError (''string indices must be integers, not '' @ [CHR 0x27] @ ''str''
                      @ [CHR 0x27])))"
| "validate_resource v =
     Inl (TypeError (''argument of type '' @ [CHR 0x27] @ type_name v @ [CHR 0x27]
                     @ '' is not iterable''))"

fun validate_loop :: "pyval list \<Rightarrow> pyval list \<Rightarrow> nat \<Rightarrow> nat \<Rightarrow> error + (pyval list \<times> nat \<times> nat)" where
  "validate_loop [] valid_resources nv ni = Inr (valid_resources, nv, ni)"
| "validate_loop (resource # rest) valid_resources nv ni =
     (case validate_resource resource of
        Inl e \<Rightarrow> Inl e
      | Inr ok \<Rightarrow>
          if ok then validate_loop rest (valid_resources @ [resource]) (nv + 1) ni
          else validate_loop rest valid_resources nv (ni + 1))"

definition validate_resources :: "resource_loader \<Rightarrow> error + (pyval list \<times> resource_loader)" where
  "validate_resources self =
     (case validate_loop (resources self) [] (stat_valid self) (stat_invalid self) of
        Inl e \<Rightarrow> Inl e
      | Inr (valid_resources, nv, ni) \<Rightarrow>
          Inr (valid_resources, self\<lparr>stat_valid := nv, stat_invalid := ni\<rparr>))"

definition load_and_validate :: "world \<Rightarrow> resource_loader \<Rightarrow> string \<Rightarrow> error + (pyval list \<times> resource_loader)" where
  "load_and_validate w self file_path =
     (case load_resources w self file_path of
        Inl e \<Rightarrow> Inl e
      | Inr (_, self1) \<Rightarrow>
          (case validate_resources self1 of
             Inl e \<Rightarrow> Inl e
           | Inr (valid_resources, self2) \<Rightarrow> deduplicate_resources self2 valid_resources))"

definition new_loader :: resource_loader where
  "new_loader =
     \<lparr>resources = [], stat_total = 0, stat_valid = 0, stat_invalid = 0, stat_duplicates = 0\<rparr>"
section \<open>StorageManager (core/storage.py)\<close>

record storage_manager =
  base_path :: string
  create_categories :: bool
  processing_log :: pyval
  stats_saved :: nat
  stats_failed :: nat
  stats_total_bytes :: nat

definition processing_log_path :: "storage_manager \<Rightarrow> string" where
  "processing_log_path self = join_path (base_path self) ''_processing-log.json''"

definition category_map :: "(string \<times> string) list" where
  "category_map =
     [(''github-repo'', ''github-repos''), (''youtube-video'', ''youtube-videos''),
      (''blog-post'', ''blog-posts''), (''article'', ''articles''), (''unknown'', ''other'')]"

definition determine_category :: "string \<Rightarrow> string" where
  "determine_category resource_type =
     (case map_of category_map resource_type of Some c \<Rightarrow> c | None \<Rightarrow> ''other'')"

text \<open>
  The character classes of the two substitutions of \<^verbatim>\<open>_generate_filename\<close>: \<^verbatim>\<open>\w\<close>
  is a letter, a digit or a numeric character, or the underscore; \<^verbatim>\<open>\s\<close> is
  \<^verbatim>\<open>str.isspace\<close>.
\<close>

definition is_word_char :: "char \<Rightarrow> bool" where
  "is_word_char c =
     (is_ascii_alpha c \<or> is_digit c \<or> c = CHR ''_''
      \<or> code_in c 170 170 \<or> code_in c 178 179 \<or> code_in c 181 181 \<or> code_in c 185 186
      \<or> code_in c 188 190 \<or> code_in c 192 214 \<or> code_in c 216 246 \<or> code_in c 248 255)"

definition is_separator :: "char \<Rightarrow> bool" where
  "is_separator c = (py_isspace c \<or> c = CHR ''_'' \<or> c = CHR ''-'')"

text \<open>
  \<^verbatim>\<open>re.sub(r'[\s_-]+', '-', slug)\<close>: every maximal run of separators becomes one
  hyphen. The flag says that the previous character belonged to a run.
\<close>

fun squeeze :: "bool \<Rightarrow> string \<Rightarrow> string" where
  "squeeze in_run [] = []"
| "squeeze in_run (c # cs) =
     (if is_separator c
      then (if in_run then squeeze True cs else CHR ''-'' # squeeze True cs)
      else c # squeeze False cs)"

definition slugify :: "string \<Rightarrow> nat \<Rightarrow> string" where
  "slugify title max_length =
     (let slug1 = lower title;
          slug2 = filter (\<lambda>c. is_word_char c \<or> py_isspace c \<or> c = CHR ''-'') slug1;
          slug3 = squeeze False slug2;
          slug4 = strip_chars ''-'' slug3;
          slug5 = (if length slug4 > max_length
                   then rstrip_chars ''-'' (take max_length slug4) else slug4)
      in if slug5 = [] then ''untitled'' else slug5)"

definition numbered_name :: "string \<Rightarrow> nat \<Rightarrow> string" where
  "numbered_name slug counter = slug @ ''-'' @ show_nat counter @ ''.md''"

text \<open>
  The loop of \<^verbatim>\<open>_generate_filename\<close> tries \<^verbatim>\<open>slug.md\<close>, \<^verbatim>\<open>slug-2.md\<close>,
  \<^verbatim>\<open>slug-3.md\<close>, ... until a path does not exist. It ends because the numbered names
  are pairwise different and the file system holds finitely many paths.
\<close>

lemma digit_value_digit_char: "n < 10 \<Longrightarrow> digit_value (digit_char n) = n"
  by (simp add: digit_value_def digit_char_def is_digit_def code_in_def)

lemma digits_value_show_nat: "digits_value 10 (show_nat n) = n"
proof (induction n rule: show_nat.induct)
  case (1 n)
  show ?case
  proof (cases "n < 10")
    case True
    then show ?thesis by (simp add: digits_value_def digit_value_digit_char)
  next
    case False
    with 1 have "digits_value 10 (show_nat (n div 10)) = n div 10" by simp
    with False show ?thesis
      by (subst show_nat.simps) (simp add: digits_value_def digit_value_digit_char)
  qed
qed

lemma inj_show_nat: "inj show_nat"
  by (rule inj_on_inverseI [where g = "digits_value 10"]) (rule digits_value_show_nat)

lemma inj_numbered_name: "inj (numbered_name slug)"
  using inj_show_nat by (auto simp: inj_def numbered_name_def)

lemma finite_taken_numbers:
  "finite {k. path_exists w (join_path dir (numbered_name slug k))}"
proof -
  have inj: "inj (\<lambda>k. join_path dir (numbered_name slug k))"
    using inj_numbered_name [of slug] by (auto simp: inj_def join_path_def)
  have "finite {p. path_exists w p}"
    by (simp add: path_exists_def is_file_def is_dir_def)
  then have "finite ((\<lambda>k. join_path dir (numbered_name slug k)) -` {p. path_exists w p})"
    using inj by (rule finite_vimageI)
  then show ?thesis by (simp add: vimage_def)
qed

function next_free_name :: "world \<Rightarrow> string \<Rightarrow> string \<Rightarrow> string \<Rightarrow> nat \<Rightarrow> string" where
  "next_free_name w dir slug filename counter =
     (if path_exists w (join_path dir filename)
      then next_free_name w dir slug (numbered_name slug counter) (counter + 1)
      else filename)"
  by pat_completeness auto
termination
proof (relation "measure (\<lambda>(w, dir, slug, filename, counter).
          card {k. counter \<le> k \<and> path_exists w (join_path dir (numbered_name slug k))}
          + (if path_exists w (join_path dir filename) then 1 else 0))")
  show "wf (measure (\<lambda>(w, dir, slug, filename, counter).
          card {k. counter \<le> k \<and> path_exists w (join_path dir (numbered_name slug k))}
          + (if path_exists w (join_path dir filename) then 1 else 0)))"
    by simp
next
  fix w :: world and dir slug filename :: string and counter :: nat
  assume ex: "path_exists w (join_path dir filename)"
  let ?S = "\<lambda>c. {k. c \<le> k \<and> path_exists w (join_path dir (numbered_name slug k))}"
  have fin: "finite (?S counter)"
    using finite_taken_numbers [of w dir slug] by (rule rev_finite_subset) auto
  have "card (?S (counter + 1))
          + (if path_exists w (join_path dir (numbered_name slug counter)) then 1 else 0)
        = card (?S counter)"
  proof (cases "path_exists w (join_path dir (numbered_name slug counter))")
    case True
    then have "?S counter = insert counter (?S (counter + 1))" by (auto simp: le_Suc_eq)
    moreover have "counter \<notin> ?S (counter + 1)" by simp
    moreover have "finite (?S (counter + 1))" using fin by (rule rev_finite_subset) auto
    ultimately show ?thesis using True by simp
  next
    case False
    then have "?S counter = ?S (counter + 1)"
      by (auto simp: Suc_le_eq intro: le_neq_implies_less)
    then show ?thesis using False by simp
  qed
  then show "((w, dir, slug, numbered_name slug counter, counter + 1),
              (w, dir, slug, filename, counter)) \<in> measure (\<lambda>(w, dir, slug, filename, counter).
          card {k. counter \<le> k \<and> path_exists w (join_path dir (numbered_name slug k))}
          + (if path_exists w (join_path dir filename) then 1 else 0))"
    using ex by simp
qed

text \<open>
  \<^verbatim>\<open>_generate_filename\<close>. The title comes from \<^verbatim>\<open>extracted_data.get('title', ...)\<close>
  and is any value; \<^verbatim>\<open>title.lower()\<close> exists on a string only.
\<close>

definition category_dir :: "storage_manager \<Rightarrow> string \<Rightarrow> string" where
  "category_dir self resource_type = join_path (base_path self) (determine_category resource_type)"

definition generate_filename :: "world \<Rightarrow> storage_manager \<Rightarrow> pyval \<Rightarrow> string \<Rightarrow> error + string" where
  "generate_filename w self title resource_type =
     (case title of
        PStr t \<Rightarrow>
          Inr (next_free_name w (category_dir self resource_type) (slugify t 50)
                 (slugify t 50 @ ''.md'') 2)
      | v \<Rightarrow> Inl (no_attribute v ''lower''))"

text \<open>
  \<^verbatim>\<open>_format_markdown\<close>. The clock is read twice: for the front matter, and for the
  default of \<^verbatim>\<open>metadata.get('extracted_at', ...)\<close>, which Python evaluates whether or
  not the key is present. A \<^verbatim>\<open>metadata\<close> that is not a \<^verbatim>\<open>dict\<close> has no \<^verbatim>\<open>get\<close>;
  the first reading has been taken by then.
\<close>

definition unlines :: "string list \<Rightarrow> string" where
  "unlines ls = concat (map (\<lambda>l. l @ [CHR 0x0A]) ls)"

definition format_markdown ::
  "clock \<Rightarrow> world \<Rightarrow> pyval \<Rightarrow> string \<Rightarrow> string \<Rightarrow> (error + string) \<times> world" where
  "format_markdown now w extracted_data resource_type original_url =
     (case extracted_data of
        PDict d \<Rightarrow>
          (let title = py_str (dict_get d ''title'' (PStr ''Untitled''));
               description = py_str (dict_get d ''description'' (PStr ''No description available''));
               content = py_str (dict_get d ''content'' (PStr ''''));
               (t1, w1) = read_clock now w
           in case dict_get d ''metadata'' (PDict []) of
                PDict md \<Rightarrow>
                  (let (t2, w2) = read_clock now w1;
                       frontmatter = unlines
                         [''---'',
                          ''title: '' @ [CHR 0x22] @ title @ [CHR 0x22],
                          ''source: '' @ original_url,
                          ''type: '' @ resource_type,
                          ''extracted: '' @ t1,
                          ''domain: '' @ py_str (dict_get md ''domain'' (PStr ''unknown'')),
                          ''word_count: '' @ py_str (dict_get md ''word_count'' (PInt 0)),
                          ''processing_status: completed'',
                          ''---'',
                          ''''];
                       markdown_content = unlines
                         [''# '' @ title,
                          '''',
                          ''## Description'',
                          description,
                          '''',
                          ''## Content'',
                          '''',
                          content,
                          '''',
                          ''---'',
                          '''',
                          ''## Metadata'',
                          '''',
                          ''**Source:** ['' @ original_url @ '']('' @ original_url @ '')'',
                          ''**Type:** '' @ resource_type,
                          ''**Extracted:** '' @ py_str (dict_get md ''extracted_at'' (PStr t2)),
                          ''**Extractor:** '' @ py_str (dict_get md ''extractor'' (PStr ''unknown'')),
                          ''**Word Count:** '' @ py_str (dict_get md ''word_count'' (PInt 0))]
                   in (Inr (frontmatter @ markdown_content), w2))
              | v \<Rightarrow> (Inl (no_attribute v ''get''), w1))
      | v \<Rightarrow> (Inl (no_attribute v ''get''), w))"

text \<open>
  The processing log is whatever JSON value \<^verbatim>\<open>_load_processing_log\<close> found, or the
  fresh structure. \<^verbatim>\<open>_update_processing_log\<close> subscripts it: each step below can
  raise, and the steps before it have then already changed the log.
\<close>

definition not_subscriptable :: "pyval \<Rightarrow> error" where
  "not_subscriptable v =
     (case v of
        PList xs \<Rightarrow> TypeError ''list indices must be integers or slices, not str''
      | PStr s \<Rightarrow> TypeError (''string indices must be integers, not '' @ [CHR 0x27] @ ''str''
                              @ [CHR 0x27])
      | _ \<Rightarrow> TypeError ([CHR 0x27] @ type_name v @ [CHR 0x27] @ '' object is not subscriptable''))"

text \<open>\<^verbatim>\<open>v[key]\<close> for a string key.\<close>

definition subscript :: "pyval \<Rightarrow> string \<Rightarrow> error + pyval" where
  "subscript v key =
     (case v of
        PDict d \<Rightarrow> (case map_of d key of Some x \<Rightarrow> Inr x | None \<Rightarrow> Inl (KeyError (repr_str key)))
      | _ \<Rightarrow> Inl (not_subscriptable v))"

text \<open>\<^verbatim>\<open>sum(1 for r in resources if r['status'] == status)\<close>\<close>

fun count_status :: "pyval list \<Rightarrow> string \<Rightarrow> error + nat" where
  "count_status [] status = Inr 0"
| "count_status (r # rs) status =
     (case subscript r ''status'' of
        Inl e \<Rightarrow> Inl e
      | Inr s \<Rightarrow>
          (case count_status rs status of
             Inl e \<Rightarrow> Inl e
           | Inr n \<Rightarrow> Inr (if s = PStr status then n + 1 else n)))"

definition opt_str :: "string option \<Rightarrow> pyval" where
  "opt_str x = (case x of None \<Rightarrow> PNone | Some s \<Rightarrow> PStr s)"

definition log_entry ::
  "string \<Rightarrow> string \<Rightarrow> string \<Rightarrow> string option \<Rightarrow> string option \<Rightarrow> pyval" where
  "log_entry url status processed_at output_file err =
     PDict [(''url'', PStr url), (''status'', PStr status), (''processed_at'', PStr processed_at),
            (''output_file'', opt_str output_file), (''error'', opt_str err)]"

definition update_processing_log ::
  "clock \<Rightarrow> world \<Rightarrow> storage_manager \<Rightarrow> string \<Rightarrow> string \<Rightarrow> string option \<Rightarrow> string option
     \<Rightarrow> error option \<times> world \<times> storage_manager" where
  "update_processing_log now w self url status output_file err =
     (let (t1, w1) = read_clock now w;
          entry = log_entry url status t1 output_file err
      in case processing_log self of
           PDict d \<Rightarrow>
             (case map_of d ''resources'' of
                None \<Rightarrow> (Some (KeyError (repr_str ''resources'')), w1, self)
              | Some (PList rs) \<Rightarrow>
                  (let rs' = rs @ [entry];
                       d1 = dict_set (dict_set d ''resources'' (PList rs')) ''total_processed''
                              (PInt (int (length rs')))
                   in case count_status rs' ''completed'' of
                        Inl e \<Rightarrow> (Some e, w1, self\<lparr>processing_log := PDict d1\<rparr>)
                      | Inr ns \<Rightarrow>
                          (case count_status rs' ''failed'' of
                             Inl e \<Rightarrow>
                               (Some e, w1,
                                self\<lparr>processing_log :=
                                  PDict (dict_set d1 ''successful'' (PInt (int ns)))\<rparr>)
                           | Inr nf \<Rightarrow>
                               (let (t2, w2) = read_clock now w1
                                in (None, w2,
                                    self\<lparr>processing_log :=
                                      PDict (dict_set
                                        (dict_set (dict_set d1 ''successful'' (PInt (int ns)))
                                           ''failed'' (PInt (int nf)))
                                        ''last_updated'' (PStr t2))\<rparr>))))
              | Some v \<Rightarrow> (Some (no_attribute v ''append''), w1, self))
         | v \<Rightarrow> (Some (not_subscriptable v), w1, self))"

text \<open>
  The \<^verbatim>\<open>try\<close> block of \<^verbatim>\<open>save_content\<close>: the path of the written file, or the
  exception that left the block, with the world and the manager as the block left them.
\<close>

definition save_attempt ::
  "clock \<Rightarrow> world \<Rightarrow> storage_manager \<Rightarrow> pyval \<Rightarrow> string \<Rightarrow> string
     \<Rightarrow> (error + string) \<times> world \<times> storage_manager" where
  "save_attempt now w self extracted_data resource_type original_url =
     (case extracted_data of
        PDict d \<Rightarrow>
          (case generate_filename w self (dict_get d ''title'' (PStr ''untitled'')) resource_type of
             Inl e \<Rightarrow> (Inl e, w, self)
           | Inr filename \<Rightarrow>
               (let category_path = category_dir self resource_type
                in case (if create_categories self then mkdir w category_path else Inr w) of
                     Inl e \<Rightarrow> (Inl e, w, self)
                   | Inr w1 \<Rightarrow>
                       (case format_markdown now w1 extracted_data resource_type original_url of
                          (Inl e, w2) \<Rightarrow> (Inl e, w2, self)
                        | (Inr markdown, w2) \<Rightarrow>
                            (case write_text w2 category_path filename markdown of
                               Inl e \<Rightarrow> (Inl e, w2, self)
                             | Inr w3 \<Rightarrow>
                                 (let self1 = self\<lparr>stats_saved := stats_saved self + 1,
                                        stats_total_bytes :=
                                          stats_total_bytes self + length markdown\<rparr>;
                                      file_path = join_path category_path filename
                                  in case update_processing_log now w3 self1 original_url
                                            ''completed'' (Some file_path) None of
                                       (Some e, w4, self2) \<Rightarrow> (Inl e, w4, self2)
                                     | (None, w4, self2) \<Rightarrow> (Inr file_path, w4, self2))))))
      | v \<Rightarrow> (Inl (no_attribute v ''get''), w, self))"

text \<open>
  \<^verbatim>\<open>save_content\<close>: the path, \<^verbatim>\<open>None\<close> after a caught exception, or the exception
  that the handler itself raised while it updated the log.
\<close>

definition save_content ::
  "clock \<Rightarrow> world \<Rightarrow> storage_manager \<Rightarrow> pyval \<Rightarrow> string \<Rightarrow> string
     \<Rightarrow> (error + string option) \<times> world \<times> storage_manager" where
  "save_content now w self extracted_data resource_type original_url =
     (case save_attempt now w self extracted_data resource_type original_url of
        (Inr file_path, w1, self1) \<Rightarrow> (Inr (Some file_path), w1, self1)
      | (Inl e, w1, self1) \<Rightarrow>
          (case update_processing_log now w1 (self1\<lparr>stats_failed := stats_failed self1 + 1\<rparr>)
                  original_url ''failed'' None (Some (str_of_error e)) of
             (Some e', w2, self2) \<Rightarrow> (Inl e', w2, self2)
           | (None, w2, self2) \<Rightarrow> (Inr None, w2, self2)))"

text \<open>
  \<^verbatim>\<open>_load_processing_log\<close> and \<^verbatim>\<open>__init__\<close>. A log file that cannot be read or is not
  JSON gives the fresh structure; a log file that is JSON is taken as it is.
\<close>

definition fresh_log :: "string \<Rightarrow> pyval" where
  "fresh_log t =
     PDict [(''last_updated'', PStr t), (''total_processed'', PInt 0), (''successful'', PInt 0),
            (''failed'', PInt 0), (''resources'', PList [])]"

definition load_processing_log :: "clock \<Rightarrow> world \<Rightarrow> string \<Rightarrow> pyval \<times> world" where
  "load_processing_log now w log_path =
     (case (if path_exists w log_path
            then (case read_text w log_path of
                    Inl e \<Rightarrow> None
                  | Inr text \<Rightarrow> json_loads text)
            else None) of
        Some v \<Rightarrow> (v, w)
      | None \<Rightarrow> (let (t, w1) = read_clock now w in (fresh_log t, w1)))"

definition new_storage ::
  "clock \<Rightarrow> world \<Rightarrow> string \<Rightarrow> bool \<Rightarrow> error + (storage_manager \<times> world)" where
  "new_storage now w base create =
     (case mkdir w base of
        Inl e \<Rightarrow> Inl e
      | Inr w1 \<Rightarrow>
          (let (lg, w2) = load_processing_log now w1 (join_path base ''_processing-log.json'')
           in Inr (\<lparr>base_path = base, create_categories = create, processing_log = lg,
                     stats_saved = 0, stats_failed = 0, stats_total_bytes = 0\<rparr>, w2)))"
section \<open>Writing the processing log (json.dump with indent=2, ensure_ascii=False)\<close>

definition json_escape_char :: "char \<Rightarrow> string" where
  "json_escape_char c =
     (if c = CHR 0x22 \<or> c = CHR 0x5C then [CHR 0x5C, c]
      else if c = CHR 0x08 then [CHR 0x5C, CHR ''b'']
      else if c = CHR 0x0C then [CHR 0x5C, CHR ''f'']
      else if c = CHR 0x0A then [CHR 0x5C, CHR ''n'']
      else if c = CHR 0x0D then [CHR 0x5C, CHR ''r'']
      else if c = CHR 0x09 then [CHR 0x5C, CHR ''t'']
      else if code_in c 0 31
      then [CHR 0x5C, CHR ''u'', CHR ''0'', CHR ''0'',
            hex_char (of_char c div 16), hex_char (of_char c mod 16)]
      else [c])"

definition json_string :: "string \<Rightarrow> string" where
  "json_string s = [CHR 0x22] @ concat (map json_escape_char s) @ [CHR 0x22]"

definition newline_indent :: "nat \<Rightarrow> string" where
  "newline_indent level = CHR 0x0A # replicate (2 * level) CHR '' ''"

fun json_dumps_at :: "nat \<Rightarrow> pyval \<Rightarrow> string" where
  "json_dumps_at level PNone = ''null''"
| "json_dumps_at level (PBool b) = (if b then ''true'' else ''false'')"
| "json_dumps_at level (PInt i) = show_int i"
| "json_dumps_at level (PFloat f) = f"
| "json_dumps_at level (PStr s) = json_string s"
| "json_dumps_at level (PList xs) =
     (if xs = [] then ''[]''
      else ''['' @ newline_indent (level + 1)
           @ join ('','' @ newline_indent (level + 1)) (map (json_dumps_at (level + 1)) xs)
           @ newline_indent level @ '']'')"
| "json_dumps_at level (PDict d) =
     (if d = [] then ''{}''
      else ''{'' @ newline_indent (level + 1)
           @ join ('','' @ newline_indent (level + 1))
               (map (\<lambda>kv. json_string (fst kv) @ '': '' @ json_dumps_at (level + 1) (snd kv)) d)
           @ newline_indent level @ ''}'')"

definition json_dumps :: "pyval \<Rightarrow> string" where
  "json_dumps v = json_dumps_at 0 v"

text \<open>\<^verbatim>\<open>save_processing_log\<close>: a failure to write is logged and nothing else happens.\<close>

definition save_processing_log :: "world \<Rightarrow> storage_manager \<Rightarrow> world" where
  "save_processing_log w self =
     (case write_text w (base_path self) ''_processing-log.json''
             (json_dumps (processing_log self)) of
        Inl e \<Rightarrow> w
      | Inr w' \<Rightarrow> w')"

section \<open>SmartExtractor (main.py)\<close>

text \<open>
  The orchestrator owns a loader, a detector, a storage manager and the run statistics.
  Its extractor fetches pages over the network; it is a parameter \<open>extract\<close> of the
  operations, giving for a URL and its metadata the extracted content or the exception
  raised.
\<close>

record smart_extractor =
  input_file :: string
  output_dir :: string
  loader :: resource_loader
  detector :: type_detector
  storage :: storage_manager
  run_total :: nat
  run_successful :: nat
  run_failed :: nat
  start_time :: "string option"
  end_time :: "string option"

type_synonym extractor = "string \<Rightarrow> metadata \<Rightarrow> error + pyval"

text \<open>
  The \<^verbatim>\<open>try\<close> block of \<^verbatim>\<open>_process_resource\<close> with its handler: every exception of the
  detector, the extractor or the storage manager adds one to \<^verbatim>\<open>stats['failed']\<close> and
  nothing else.
\<close>

definition process_url ::
  "clock \<Rightarrow> extractor \<Rightarrow> world \<Rightarrow> smart_extractor \<Rightarrow> string \<Rightarrow> world \<times> smart_extractor" where
  "process_url now extract w self url =
     (case detect_type (detector self) url of
        Inl e \<Rightarrow> (w, self\<lparr>run_failed := run_failed self + 1\<rparr>)
      | Inr ((resource_type, type_metadata), detector') \<Rightarrow>
          (let self1 = self\<lparr>detector := detector'\<rparr> in
           case extract url type_metadata of
             Inl e \<Rightarrow> (w, self1\<lparr>run_failed := run_failed self1 + 1\<rparr>)
           | Inr extracted_data \<Rightarrow>
               (case save_content now w (storage self1) extracted_data resource_type url of
                  (Inr (Some output_file), w', storage') \<Rightarrow>
                    (w', self1\<lparr>storage := storage', run_successful := run_successful self1 + 1\<rparr>)
                | (Inr None, w', storage') \<Rightarrow>
                    (w', self1\<lparr>storage := storage', run_failed := run_failed self1 + 1\<rparr>)
                | (Inl e, w', storage') \<Rightarrow>
                    (w', self1\<lparr>storage := storage', run_failed := run_failed self1 + 1\<rparr>))))"

text \<open>
  \<^verbatim>\<open>_process_resource\<close>. The first statement,
  \<^verbatim>\<open>resource.get('url', '').strip()\<close>, stands before the \<^verbatim>\<open>try\<close>: its exception
  leaves the method.
\<close>

definition process_resource ::
  "clock \<Rightarrow> extractor \<Rightarrow> world \<Rightarrow> smart_extractor \<Rightarrow> pyval
     \<Rightarrow> error option \<times> world \<times> smart_extractor" where
  "process_resource now extract w self resource =
     (case resource of
        PDict d \<Rightarrow>
          (case dict_get d ''url'' (PStr '''') of
             PStr s \<Rightarrow> (case process_url now extract w self (strip s) of
                          (w', self') \<Rightarrow> (None, w', self'))
           | v \<Rightarrow> (Some (no_attribute v ''strip''), w, self))
      | v \<Rightarrow> (Some (no_attribute v ''get''), w, self))"

fun process_resources ::
  "clock \<Rightarrow> extractor \<Rightarrow> world \<Rightarrow> smart_extractor \<Rightarrow> pyval list
     \<Rightarrow> error option \<times> world \<times> smart_extractor" where
  "process_resources now extract w self [] = (None, w, self)"
| "process_resources now extract w self (resource # rest) =
     (case process_resource now extract w self resource of
        (Some e, w', self') \<Rightarrow> (Some e, w', self')
      | (None, w', self') \<Rightarrow> process_resources now extract w' self' rest)"

text \<open>
  \<^verbatim>\<open>process_all\<close>: an exception of the loader ends the run with the statistics as they
  are; so does an empty list of resources. Otherwise every resource is processed in
  order, the end time is taken and the processing log is written.
\<close>

definition process_all ::
  "clock \<Rightarrow> extractor \<Rightarrow> world \<Rightarrow> smart_extractor \<Rightarrow> error option \<times> world \<times> smart_extractor" where
  "process_all now extract w self =
     (let (t0, w1) = read_clock now w;
          self1 = self\<lparr>start_time := Some t0\<rparr>
      in case load_and_validate w1 (loader self1) (input_file self1) of
           Inl e \<Rightarrow> (None, w1, self1)
         | Inr (rs, loader') \<Rightarrow>
             (let self2 = self1\<lparr>loader := loader', run_total := length rs\<rparr> in
              if rs = [] then (None, w1, self2)
              else (case process_resources now extract w1 self2 rs of
                      (Some e, w2, self3) \<Rightarrow> (Some e, w2, self3)
                    | (None, w2, self3) \<Rightarrow>
                        (let (t1, w3) = read_clock now w2;
                             self4 = self3\<lparr>end_time := Some t1\<rparr>
                         in (None, save_processing_log w3 (storage self4), self4)))))"

text \<open>\<^verbatim>\<open>SmartExtractor.__init__\<close>\<close>

definition new_smart_extractor ::
  "clock \<Rightarrow> world \<Rightarrow> string \<Rightarrow> string \<Rightarrow> error + (smart_extractor \<times> world)" where
  "new_smart_extractor now w input output =
     (case new_storage now w output True of
        Inl e \<Rightarrow> Inl e
      | Inr (st, w') \<Rightarrow>
          Inr (\<lparr>input_file = input, output_dir = output, loader = new_loader,
                 detector = new_detector, storage = st, run_total = 0, run_successful = 0,
                 run_failed = 0, start_time = None, end_time = None\<rparr>, w'))"

section \<open>Notions used in the statements\<close>

text \<open>The path \<open>p\<close> is a text file with the given content that can be read.\<close>

definition holds_text :: "world \<Rightarrow> string \<Rightarrow> string \<Rightarrow> bool" where
  "holds_text w p content = (map_of (fs_faults w) p = None \<and> map_of (fs_files w) p = Some content)"


text \<open>
  The processing log as a structure: a \<^verbatim>\<open>dict\<close> whose \<^verbatim>\<open>resources\<close> is a list of
  entries, each a \<^verbatim>\<open>dict\<close> with a \<^verbatim>\<open>status\<close>. The fresh log has this structure and
  \<^verbatim>\<open>_update_processing_log\<close> keeps it.
\<close>

fun has_status :: "pyval \<Rightarrow> bool" where
  "has_status (PDict d) = (map_of d ''status'' \<noteq> None)"
| "has_status _ = False"

definition is_processing_log :: "pyval \<Rightarrow> bool" where
  "is_processing_log lg =
     (case lg of
        PDict d \<Rightarrow> (case map_of d ''resources'' of
                      Some (PList rs) \<Rightarrow> list_all has_status rs
                    | _ \<Rightarrow> False)
      | _ \<Rightarrow> False)"

text \<open>A field of a log or of a log entry, and the entry sequence of a log.\<close>

definition field :: "pyval \<Rightarrow> string \<Rightarrow> pyval option" where
  "field v k = (case v of PDict d \<Rightarrow> map_of d k | _ \<Rightarrow> None)"

definition log_entries :: "pyval \<Rightarrow> pyval list" where
  "log_entries lg = (case field lg ''resources'' of Some (PList rs) \<Rightarrow> rs | _ \<Rightarrow> [])"

definition with_status :: "string \<Rightarrow> pyval list \<Rightarrow> pyval list" where
  "with_status s es = filter (\<lambda>e. field e ''status'' = Some (PStr s)) es"

text \<open>The three aggregate counts of a log are those of its entry sequence.\<close>

definition counts_recomputed :: "pyval \<Rightarrow> bool" where
  "counts_recomputed lg =
     (field lg ''total_processed'' = Some (PInt (int (length (log_entries lg))))
      \<and> field lg ''successful'' = Some (PInt (int (length (with_status ''completed'' (log_entries lg)))))
      \<and> field lg ''failed'' = Some (PInt (int (length (with_status ''failed'' (log_entries lg))))))"

text \<open>The names \<^verbatim>\<open>slug.md\<close>, \<^verbatim>\<open>slug-2.md\<close>, \<^verbatim>\<open>slug-3.md\<close>, ... by their position.\<close>

definition candidate :: "string \<Rightarrow> nat \<Rightarrow> string" where
  "candidate slug k = (if k \<le> 1 then slug @ ''.md'' else numbered_name slug k)"

section \<open>Properties of the detector\<close>

lemma type_constants_distinct:
  "TYPE_GITHUB \<noteq> TYPE_YOUTUBE" "TYPE_GITHUB \<noteq> TYPE_BLOG" "TYPE_GITHUB \<noteq> TYPE_ARTICLE"
  "TYPE_YOUTUBE \<noteq> TYPE_BLOG" "TYPE_YOUTUBE \<noteq> TYPE_ARTICLE" "TYPE_BLOG \<noteq> TYPE_ARTICLE"
  "TYPE_GITHUB \<noteq> TYPE_UNKNOWN" "TYPE_YOUTUBE \<noteq> TYPE_UNKNOWN"
  "TYPE_BLOG \<noteq> TYPE_UNKNOWN" "TYPE_ARTICLE \<noteq> TYPE_UNKNOWN"
  by (simp_all add: TYPE_GITHUB_def TYPE_YOUTUBE_def TYPE_BLOG_def TYPE_ARTICLE_def
        TYPE_UNKNOWN_def)

lemma parse_github_url_domain:
  "parse_github_url u = Inr md \<Longrightarrow> map_of md ''domain'' = Some ''github.com''"
  by (auto simp: parse_github_url_def split: sum.splits list.splits)

lemma parse_youtube_url_domain:
  "parse_youtube_url u = Inr md \<Longrightarrow> map_of md ''domain'' = Some ''youtube.com''"
  by (auto simp: parse_youtube_url_def split: sum.splits list.splits option.splits if_splits)

lemma parse_github_url_ok:
  "urlparse u = Inr p \<Longrightarrow> \<exists>md. parse_github_url u = Inr md"
  by (auto simp: parse_github_url_def split: sum.splits list.splits)

lemma parse_youtube_url_ok:
  "urlparse u = Inr p \<Longrightarrow> \<exists>md. parse_youtube_url u = Inr md"
  by (auto simp: parse_youtube_url_def split: sum.splits list.splits option.splits)

text \<open>
  The example of the specification: \<^verbatim>\<open>https://github.com/acme/widgets/issues/3\<close> is a
  github-repo with owner \<^verbatim>\<open>acme\<close>, repo \<^verbatim>\<open>widgets\<close> and full name
  \<^verbatim>\<open>acme/widgets\<close>.
\<close>

lemma detect_type_acme_widgets:
  "map_sum id fst (detect_type new_detector ''https://github.com/acme/widgets/issues/3'')
     = Inr (TYPE_GITHUB, [(''domain'', ''github.com''), (''owner'', ''acme''),
                          (''repo'', ''widgets''), (''full_name'', ''acme/widgets'')])"
  by code_simp

text \<open>
  C5. The claim: a URL is a github-repo exactly when its host contains
  \<^verbatim>\<open>github.com\<close> and its path has at least two non-empty segments, and then the
  metadata holds owner, repo and full name. \<^verbatim>\<open>is_github\<close> counts the slashes of the
  path instead of its non-empty segments: \<^verbatim>\<open>https://github.com/acme/\<close> has two slashes
  and one segment, is classified github-repo, and its metadata holds the domain only.
\<close>

theorem detect_type_github_one_segment:
  "map_sum id fst (detect_type new_detector ''https://github.com/acme/'')
     = Inr (TYPE_GITHUB, [(''domain'', ''github.com'')])
   \<and> map_sum id (\<lambda>p. path_parts (url_path p)) (urlparse ''https://github.com/acme/'')
     = Inr [''acme'']"
  by code_simp

text \<open>
  C9. The claim: \<^verbatim>\<open>detect_type\<close> never raises, returns one of the five categories and
  never \<^verbatim>\<open>unknown\<close>. It does raise: the URL parser rejects a network location with an
  unbalanced square bracket, and \<^verbatim>\<open>detect_type\<close> has no handler.
\<close>

theorem detect_type_raises_on_bracket:
  "map_sum id fst (detect_type new_detector ''http://['') = Inl (ValueError ''Invalid IPv6 URL'')"
  by code_simp

text \<open>
  C9, as amended: \<^verbatim>\<open>detect_type\<close> raises exactly the error of the URL parser when the
  parser rejects the stripped URL; for every other URL it returns one of the four
  categories github-repo, youtube-video, blog-post and article, and never \<^verbatim>\<open>unknown\<close>.
\<close>

theorem detect_type_returns_or_parser_raises:
  "case urlparse (strip url) of
     Inl e \<Rightarrow> detect_type self url = Inl e
   | Inr parsed \<Rightarrow>
       (\<exists>t md self'. detect_type self url = Inr ((t, md), self')
          \<and> t \<in> {TYPE_GITHUB, TYPE_YOUTUBE, TYPE_BLOG, TYPE_ARTICLE}
          \<and> t \<noteq> TYPE_UNKNOWN)"
proof (cases "urlparse (strip url)")
  case (Inl e)
  then show ?thesis by (simp add: detect_type_def)
next
  case (Inr parsed)
  obtain g where g: "parse_github_url (strip url) = Inr g"
    using parse_github_url_ok [OF Inr] by blast
  obtain y where y: "parse_youtube_url (strip url) = Inr y"
    using parse_youtube_url_ok [OF Inr] by blast
  show ?thesis
    by (simp add: Inr detect_type_def Let_def g y type_constants_distinct)
qed

text \<open>
  C10. Whenever \<^verbatim>\<open>detect_type\<close> returns github-repo the metadata's domain is the
  literal \<^verbatim>\<open>github.com\<close>, whenever it returns youtube-video (the \<^verbatim>\<open>youtu.be\<close> links
  included) it is the literal \<^verbatim>\<open>youtube.com\<close>, and for blog-post and article it is the
  lower-cased network location the parser found in the URL.
\<close>

theorem detect_type_domain:
  assumes "detect_type self url = Inr ((t, md), self')"
  shows "(t = TYPE_GITHUB \<longrightarrow> map_of md ''domain'' = Some ''github.com'')
       \<and> (t = TYPE_YOUTUBE \<longrightarrow> map_of md ''domain'' = Some ''youtube.com'')
       \<and> (t = TYPE_BLOG \<or> t = TYPE_ARTICLE \<longrightarrow>
            (\<exists>parsed. urlparse (strip url) = Inr parsed
               \<and> map_of md ''domain'' = Some (lower (url_netloc parsed))))"
  using assms
  by (auto simp: detect_type_def Let_def type_constants_distinct
             type_constants_distinct [symmetric]
           dest: parse_github_url_domain parse_youtube_url_domain
           split: sum.splits if_splits)

lemma detect_type_youtu_be:
  "\<exists>self'. detect_type new_detector ''https://youtu.be/abc123''
     = Inr ((TYPE_YOUTUBE, [(''domain'', ''youtube.com''), (''video_id'', ''abc123'')]), self')"
proof -
  have "map_sum id fst (detect_type new_detector ''https://youtu.be/abc123'')
      = Inr (TYPE_YOUTUBE, [(''domain'', ''youtube.com''), (''video_id'', ''abc123'')])"
    by code_simp
  then show ?thesis
    by (cases "detect_type new_detector ''https://youtu.be/abc123''") auto
qed

theorem detect_type_domain_witness:
  "\<exists>self'. detect_type new_detector ''https://youtu.be/abc123''
       = Inr ((TYPE_YOUTUBE, [(''domain'', ''youtube.com''), (''video_id'', ''abc123'')]), self')
     \<and> map_of [(''domain'', ''youtube.com''), (''video_id'', ''abc123'')] ''domain''
       = Some ''youtube.com''"
proof -
  obtain self' where h: "detect_type new_detector ''https://youtu.be/abc123''
       = Inr ((TYPE_YOUTUBE, [(''domain'', ''youtube.com''), (''video_id'', ''abc123'')]), self')"
    using detect_type_youtu_be by blast
  from detect_type_domain [OF h] have
    "map_of [(''domain'', ''youtube.com''), (''video_id'', ''abc123'')] ''domain''
       = Some ''youtube.com''"
    by blast
  with h show ?thesis by blast
qed

section \<open>Properties of the loader\<close>









definition example_loader :: resource_loader where
  "example_loader =
     \<lparr>resources = [], stat_total = 3, stat_valid = 3, stat_invalid = 0, stat_duplicates = 0\<rparr>"

definition example_entries :: "pyval list" where
  "example_entries =
     [PDict [(''url'', PStr ''https://Example.com/a '')],
      PDict [(''url'', PStr ''https://example.com/a''), (''note'', PInt 2)],
      PDict [(''url'', PStr ''https://example.com/b'')]]"

lemma deduplicate_resources_example:
  "deduplicate_resources example_loader example_entries
     = Inr ([PDict [(''url'', PStr ''https://Example.com/a '')],
             PDict [(''url'', PStr ''https://example.com/b'')]],
            example_loader\<lparr>stat_duplicates := 1\<rparr>)"
  by code_simp

lemma holds_text_exists: "holds_text w p content \<Longrightarrow> path_exists w p"
  by (auto simp: holds_text_def path_exists_def is_file_def dest: map_of_SomeD intro: rev_image_eqI)

lemma holds_text_read: "holds_text w p content \<Longrightarrow> read_text w p = Inr content"
  by (simp add: holds_text_def read_text_def)




text \<open>
  C3. The claim: for a manifest that is not one JSON document but the concatenation of
  valid arrays of entries, the recovery parser returns all entries of all arrays, in
  order. The recovery splits the text at every \<^verbatim>\<open>]\<close>, also at those of arrays nested
  in an entry: of the two arrays below, the entry of the first has a list of tags and is
  lost.
\<close>

definition nested_manifest :: string where
  "nested_manifest = ''[{\"url\":\"http://a\",\"tags\":[\"x\"]}][{\"url\":\"http://b\"}]''"

theorem parse_multi_array_loses_nested:
  "nested_manifest = ''[{\"url\":\"http://a\",\"tags\":[\"x\"]}]'' @ ''[{\"url\":\"http://b\"}]''
   \<and> json_loads nested_manifest = None
   \<and> json_loads ''[{\"url\":\"http://a\",\"tags\":[\"x\"]}]''
       = Some (PList [PDict [(''url'', PStr ''http://a''), (''tags'', PList [PStr ''x''])]])
   \<and> json_loads ''[{\"url\":\"http://b\"}]'' = Some (PList [PDict [(''url'', PStr ''http://b'')]])
   \<and> parse_multi_array nested_manifest = [PDict [(''url'', PStr ''http://b'')]]"
  by code_simp






section \<open>Properties of the storage manager\<close>

lemma map_of_dict_set: "map_of (dict_set d k v) k' = (if k' = k then Some v else map_of d k')"
  by (induction d) auto

lemma count_status_total:
  "list_all has_status rs \<Longrightarrow> count_status rs s = Inr (length (with_status s rs))"
proof (induction rs)
  case Nil
  then show ?case by (simp add: with_status_def)
next
  case (Cons r rs)
  then obtain d v where r: "r = PDict d" and v: "map_of d ''status'' = Some v"
    by (cases r) auto
  from Cons have "count_status rs s = Inr (length (with_status s rs))" by simp
  then show ?case
    by (simp add: r v subscript_def with_status_def field_def)
qed

lemma has_status_log_entry: "has_status (log_entry url status t out err)"
  by (simp add: log_entry_def)

lemma field_log_entry:
  "field (log_entry url status t out err) ''url'' = Some (PStr url)"
  "field (log_entry url status t out err) ''status'' = Some (PStr status)"
  "field (log_entry url status t out err) ''output_file'' = Some (opt_str out)"
  "field (log_entry url status t out err) ''error'' = Some (opt_str err)"
  by (simp_all add: log_entry_def field_def)

lemma is_processing_logE:
  assumes "is_processing_log lg"
  obtains d rs where "lg = PDict d" "map_of d ''resources'' = Some (PList rs)"
    "list_all has_status rs"
proof (cases lg)
  case (PDict d)
  with assms obtain v where v: "map_of d ''resources'' = Some v"
    by (auto simp: is_processing_log_def split: option.splits)
  with assms PDict obtain rs where "v = PList rs" "list_all has_status rs"
    by (cases v) (auto simp: is_processing_log_def)
  with PDict v that show ?thesis by blast
qed (use assms in \<open>auto simp: is_processing_log_def\<close>)

definition append_entry :: "pyval \<Rightarrow> pyval \<Rightarrow> string \<Rightarrow> pyval" where
  "append_entry lg e t =
     (let rs = log_entries lg @ [e] in
      case lg of
        PDict d \<Rightarrow>
          PDict (dict_set
            (dict_set
              (dict_set
                (dict_set (dict_set d ''resources'' (PList rs))
                   ''total_processed'' (PInt (int (length rs))))
                ''successful'' (PInt (int (length (with_status ''completed'' rs)))))
              ''failed'' (PInt (int (length (with_status ''failed'' rs)))))
            ''last_updated'' (PStr t))
      | _ \<Rightarrow> lg)"

lemma update_processing_log_ok:
  assumes "is_processing_log (processing_log self)"
  shows "update_processing_log now w self url status out err
           = (None, w\<lparr>clock_ticks := clock_ticks w + 2\<rparr>,
              self\<lparr>processing_log :=
                append_entry (processing_log self)
                  (log_entry url status (now (clock_ticks w)) out err)
                  (now (clock_ticks w + 1))\<rparr>)"
proof -
  from assms obtain d rs where lg: "processing_log self = PDict d"
    and rs: "map_of d ''resources'' = Some (PList rs)" and st: "list_all has_status rs"
    by (rule is_processing_logE)
  let ?e = "log_entry url status (now (clock_ticks w)) out err"
  have st': "list_all has_status (rs @ [?e])"
    using st by (simp add: has_status_log_entry)
  note cs = count_status_total [OF st']
  show ?thesis
    by (simp add: update_processing_log_def read_clock_def lg rs cs Let_def append_entry_def
          log_entries_def field_def)
qed

lemma log_entries_append_entry:
  "is_processing_log lg \<Longrightarrow> log_entries (append_entry lg e t) = log_entries lg @ [e]"
  by (erule is_processing_logE)
     (simp add: append_entry_def log_entries_def field_def map_of_dict_set Let_def)

lemma is_processing_log_append_entry:
  "is_processing_log lg \<Longrightarrow> has_status e \<Longrightarrow> is_processing_log (append_entry lg e t)"
  by (erule is_processing_logE)
     (simp add: append_entry_def log_entries_def field_def map_of_dict_set Let_def
        is_processing_log_def)

lemma counts_recomputed_append_entry:
  assumes "is_processing_log lg"
  shows "counts_recomputed (append_entry lg e t)"
proof -
  from assms obtain d rs where lg: "lg = PDict d"
    and rs: "map_of d ''resources'' = Some (PList rs)"
    by (rule is_processing_logE)
  have ents: "log_entries (append_entry lg e t) = rs @ [e]"
    using log_entries_append_entry [OF assms] by (simp add: lg rs log_entries_def field_def)
  show ?thesis
    unfolding counts_recomputed_def ents
    by (simp add: append_entry_def lg rs field_def map_of_dict_set Let_def log_entries_def)
qed

lemma next_free_name_free:
  "\<not> path_exists w (join_path dir (next_free_name w dir slug filename counter))"
  by (induction w dir slug filename counter rule: next_free_name.induct)
     (subst next_free_name.simps, simp)

lemma mkdir_effect:
  assumes "mkdir w p = Inr w1"
  shows "fs_files w1 = fs_files w" "fs_faults w1 = fs_faults w" "clock_ticks w1 = clock_ticks w"
    "set (fs_dirs w) \<subseteq> set (fs_dirs w1)" "is_dir w1 p"
  using assms by (auto simp: mkdir_def is_dir_def split: if_splits option.splits)

lemma format_markdown_effect:
  assumes "format_markdown now w data rt url = (r, w1)"
  shows "fs_files w1 = fs_files w" "fs_faults w1 = fs_faults w" "fs_dirs w1 = fs_dirs w"
  using assms
  by (auto simp: format_markdown_def read_clock_def Let_def split: pyval.splits)

lemma format_markdown_clock:
  "fst (format_markdown now w data rt url)
     = fst (format_markdown now (w'\<lparr>clock_ticks := clock_ticks w\<rparr>) data rt url)"
  by (auto simp: format_markdown_def read_clock_def Let_def split: pyval.splits)

lemma write_text_effect:
  assumes "write_text w dir name txt = Inr w1"
  shows "map_of (fs_files w1) (join_path dir name) = Some txt"
    "q \<noteq> join_path dir name \<Longrightarrow> map_of (fs_files w1) q = map_of (fs_files w) q"
    "fs_dirs w1 = fs_dirs w" "fs_faults w1 = fs_faults w" "clock_ticks w1 = clock_ticks w"
proof -
  let ?p = "join_path dir name"
  from assms have w1: "w1 = w\<lparr>fs_files := (?p, txt) # filter (\<lambda>f. fst f \<noteq> ?p) (fs_files w)\<rparr>"
    by (auto simp: write_text_def Let_def split: option.splits if_splits)
  show "map_of (fs_files w1) ?p = Some txt" by (simp add: w1)
  show "fs_dirs w1 = fs_dirs w" "fs_faults w1 = fs_faults w" "clock_ticks w1 = clock_ticks w"
    by (simp_all add: w1)
  have "map_of (filter (\<lambda>f. fst f \<noteq> ?p) xs) q = map_of xs q" if "q \<noteq> ?p" for xs
    using that by (induction xs) auto
  then show "q \<noteq> ?p \<Longrightarrow> map_of (fs_files w1) q = map_of (fs_files w) q"
    by (simp add: w1)
qed

lemma is_file_map_of: "is_file w p = (map_of (fs_files w) p \<noteq> None)"
  by (simp add: is_file_def map_of_eq_None_iff)

lemma save_attempt_outcome:
  assumes wf: "is_processing_log (processing_log self)"
      and run: "save_attempt now w self data rt url = (r, w1, self1)"
  shows "case r of
           Inl e \<Rightarrow> self1 = self \<and> fs_files w1 = fs_files w \<and> fs_faults w1 = fs_faults w
                     \<and> set (fs_dirs w) \<subseteq> set (fs_dirs w1)
         | Inr p \<Rightarrow>
             (\<exists>d name md wa t t'.
                data = PDict d
                \<and> generate_filename w self (dict_get d ''title'' (PStr ''untitled'')) rt = Inr name
                \<and> p = join_path (category_dir self rt) name
                \<and> fst (format_markdown now wa data rt url) = Inr md
                \<and> map_of (fs_files w1) p = Some md
                \<and> (\<forall>q. q \<noteq> p \<longrightarrow> map_of (fs_files w1) q = map_of (fs_files w) q)
                \<and> fs_faults w1 = fs_faults w \<and> set (fs_dirs w) \<subseteq> set (fs_dirs w1)
                \<and> self1 = self\<lparr>stats_saved := stats_saved self + 1,
                     stats_total_bytes := stats_total_bytes self + length md,
                     processing_log := append_entry (processing_log self)
                        (log_entry url ''completed'' t (Some p) None) t'\<rparr>)"
proof (cases data)
  case (PDict d)
  show ?thesis
  proof (cases "generate_filename w self (dict_get d ''title'' (PStr ''untitled'')) rt")
    case (Inl e)
    with run PDict have "r = Inl e" "w1 = w" "self1 = self"
      by (simp_all add: save_attempt_def)
    then show ?thesis by simp
  next
    case name: (Inr name)
    let ?dir = "category_dir self rt"
    show ?thesis
    proof (cases "if create_categories self then mkdir w ?dir else Inr w")
      case (Inl e)
      with run PDict name show ?thesis by (auto simp: save_attempt_def Let_def)
    next
      case mk: (Inr wa)
      have wa: "fs_files wa = fs_files w" "fs_faults wa = fs_faults w"
        "set (fs_dirs w) \<subseteq> set (fs_dirs wa)"
        using mk mkdir_effect [of w ?dir wa] by (auto split: if_splits)
      obtain fm wb where fm: "format_markdown now wa data rt url = (fm, wb)"
        by (cases "format_markdown now wa data rt url")
      note wb = format_markdown_effect [OF fm]
      show ?thesis
      proof (cases fm)
        case (Inl e)
        with run PDict name mk fm have "r = Inl e" "w1 = wb" "self1 = self"
          by (simp_all add: save_attempt_def Let_def)
        then show ?thesis using wa wb by simp
      next
        case md: (Inr md)
        show ?thesis
        proof (cases "write_text wb ?dir name md")
          case (Inl e)
          with run PDict name mk fm md have "r = Inl e" "w1 = wb" "self1 = self"
            by (simp_all add: save_attempt_def Let_def)
          then show ?thesis using wa wb by simp
        next
          case wr: (Inr wc)
          note wc = write_text_effect [OF wr]
          let ?self1 = "self\<lparr>stats_saved := stats_saved self + 1,
                 stats_total_bytes := stats_total_bytes self + length md\<rparr>"
          have wf1: "is_processing_log (processing_log ?self1)" using wf by simp
          note up = update_processing_log_ok [OF wf1, of now wc url "''completed''"
              "Some (join_path ?dir name)" None]
          from run have r: "r = Inr (join_path ?dir name)"
            and w1: "w1 = wc\<lparr>clock_ticks := clock_ticks wc + 2\<rparr>"
            and s1: "self1 = ?self1\<lparr>processing_log := append_entry (processing_log self)
                 (log_entry url ''completed'' (now (clock_ticks wc)) (Some (join_path ?dir name)) None)
                 (now (clock_ticks wc + 1))\<rparr>"
            using PDict name mk fm md wr up by (auto simp: save_attempt_def Let_def)
          have "fst (format_markdown now wa data rt url) = Inr md" using fm md by simp
          moreover have "map_of (fs_files w1) (join_path ?dir name) = Some md"
            using wc(1) by (simp add: w1)
          moreover have "\<forall>q. q \<noteq> join_path ?dir name \<longrightarrow>
              map_of (fs_files w1) q = map_of (fs_files w) q"
            using wc(2) wb(1) wa(1) by (simp add: w1)
          moreover have "fs_faults w1 = fs_faults w" using wc(4) wb(2) wa(2) by (simp add: w1)
          moreover have "set (fs_dirs w) \<subseteq> set (fs_dirs w1)"
            using wc(3) wb(3) wa(3) by (simp add: w1)
          ultimately show ?thesis
            unfolding r using PDict name s1 by (simp del: ex_simps) blast
        qed
      qed
    qed
  qed
qed (use run in \<open>auto simp: save_attempt_def\<close>)

lemma save_content_unfold:
  assumes wf: "is_processing_log (processing_log self)"
  shows "save_content now w self data rt url =
    (case save_attempt now w self data rt url of
       (Inr p, w1, self1) \<Rightarrow> (Inr (Some p), w1, self1)
     | (Inl e, w1, self1) \<Rightarrow>
         (Inr None, w1\<lparr>clock_ticks := clock_ticks w1 + 2\<rparr>,
          self\<lparr>stats_failed := stats_failed self + 1,
               processing_log := append_entry (processing_log self)
                 (log_entry url ''failed'' (now (clock_ticks w1)) None (Some (str_of_error e)))
                 (now (clock_ticks w1 + 1))\<rparr>))"
proof -
  obtain r w1 self1 where sa: "save_attempt now w self data rt url = (r, w1, self1)"
    by (cases "save_attempt now w self data rt url")
  show ?thesis
  proof (cases r)
    case (Inr p)
    with sa show ?thesis by (simp add: save_content_def)
  next
    case (Inl e)
    with save_attempt_outcome [OF wf sa] have s1: "self1 = self" by simp
    have wf1: "is_processing_log (processing_log (self\<lparr>stats_failed := stats_failed self + 1\<rparr>))"
      using wf by simp
    show ?thesis
      using sa Inl s1 update_processing_log_ok [OF wf1]
      by (simp add: save_content_def)
  qed
qed

lemma save_content_outcome:
  assumes wf: "is_processing_log (processing_log self)"
  shows "\<exists>r w' self' entry.
           save_content now w self extracted_data resource_type original_url = (Inr r, w', self')
         \<and> log_entries (processing_log self') = log_entries (processing_log self) @ [entry]
         \<and> field entry ''url'' = Some (PStr original_url)
         \<and> (case r of
               Some p \<Rightarrow> is_file w' p \<and> field entry ''status'' = Some (PStr ''completed'')
                          \<and> field entry ''output_file'' = Some (PStr p)
             | None \<Rightarrow> field entry ''status'' = Some (PStr ''failed'')
                        \<and> field entry ''output_file'' = Some PNone)
         \<and> is_processing_log (processing_log self')
         \<and> counts_recomputed (processing_log self')"
proof -
  obtain r w1 self1 where
    sa: "save_attempt now w self extracted_data resource_type original_url = (r, w1, self1)"
    by (cases "save_attempt now w self extracted_data resource_type original_url")
  note out = save_attempt_outcome [OF wf sa]
  note sc = save_content_unfold [OF wf, of now w extracted_data resource_type original_url]
  show ?thesis
  proof (cases r)
    case (Inl e)
    let ?entry = "log_entry original_url ''failed'' (now (clock_ticks w1)) None
                    (Some (str_of_error e))"
    show ?thesis
      using sc sa Inl wf
      by (intro exI [of _ None] exI [of _ "w1\<lparr>clock_ticks := clock_ticks w1 + 2\<rparr>"] exI [of _ ?entry]
            exI [of _ "self\<lparr>stats_failed := stats_failed self + 1,
               processing_log := append_entry (processing_log self) ?entry
                 (now (clock_ticks w1 + 1))\<rparr>"])
         (simp add: log_entries_append_entry is_processing_log_append_entry
            counts_recomputed_append_entry has_status_log_entry field_log_entry opt_str_def)
  next
    case (Inr p)
    with out obtain md t t' where
      written: "map_of (fs_files w1) p = Some md"
      and s1: "self1 = self\<lparr>stats_saved := stats_saved self + 1,
                     stats_total_bytes := stats_total_bytes self + length md,
                     processing_log := append_entry (processing_log self)
                        (log_entry original_url ''completed'' t (Some p) None) t'\<rparr>"
      by auto
    let ?entry = "log_entry original_url ''completed'' t (Some p) None"
    have "save_content now w self extracted_data resource_type original_url
            = (Inr (Some p), w1, self1)"
      using sc sa Inr by simp
    moreover have "is_file w1 p" using written by (simp add: is_file_map_of)
    ultimately show ?thesis
      using wf
      by (intro exI [of _ "Some p"] exI [of _ w1] exI [of _ self1] exI [of _ ?entry])
         (simp add: s1 log_entries_append_entry is_processing_log_append_entry
            counts_recomputed_append_entry has_status_log_entry field_log_entry opt_str_def)
  qed
qed


definition example_clock :: clock where
  "example_clock n = ''2025-01-01T00:00:'' @ show_nat (10 + n)"

definition empty_world :: world where
  "empty_world = \<lparr>fs_files = [], fs_dirs = [''knowledge''], fs_faults = [], clock_ticks = 0\<rparr>"

definition fresh_storage :: storage_manager where
  "fresh_storage =
     \<lparr>base_path = ''knowledge'', create_categories = True,
      processing_log = fresh_log ''2025-01-01T00:00:00'',
      stats_saved = 0, stats_failed = 0, stats_total_bytes = 0\<rparr>"


text \<open>A value that is no dictionary is refused, and the refusal is logged.\<close>

lemma save_content_garbage:
  "(case save_content example_clock empty_world fresh_storage (PList []) ''article''
           ''http://a.io/1'' of
      (r, w', self') \<Rightarrow> (r, fs_files w', map (\<lambda>e. field e ''status'')
                                           (log_entries (processing_log self'))))
   = (Inr None, [], [Some (PStr ''failed'')])"
  by code_simp

lemma candidate_Suc: "2 \<le> k \<Longrightarrow> candidate slug k = numbered_name slug k"
  by (simp add: candidate_def)






section \<open>Properties of the orchestrator\<close>

text \<open>What one resource does to the log and to the run statistics.\<close>

definition skipped :: "smart_extractor \<Rightarrow> smart_extractor \<Rightarrow> bool" where
  "skipped self self' =
     (storage self' = storage self \<and> run_successful self' = run_successful self
      \<and> run_failed self' = run_failed self + 1)"

definition logged :: "string \<Rightarrow> string \<Rightarrow> smart_extractor \<Rightarrow> smart_extractor \<Rightarrow> bool" where
  "logged status url self self' =
     (\<exists>entry. log_entries (processing_log (storage self'))
                = log_entries (processing_log (storage self)) @ [entry]
        \<and> field entry ''url'' = Some (PStr url)
        \<and> field entry ''status'' = Some (PStr status)
        \<and> counts_recomputed (processing_log (storage self'))
        \<and> run_successful self'
            = run_successful self + (if status = ''completed'' then 1 else 0)
        \<and> run_failed self' = run_failed self + (if status = ''completed'' then 0 else 1))"

lemma process_url_outcome:
  assumes wf: "is_processing_log (processing_log (storage self))"
      and run: "process_url now extract w self url = (w', self')"
  shows "is_processing_log (processing_log (storage self'))
       \<and> ((skipped self self' \<and> w' = w) \<or> logged ''completed'' url self self'
            \<or> logged ''failed'' url self self')"
proof (cases "detect_type (detector self) url")
  case (Inl e)
  with run wf show ?thesis by (auto simp: process_url_def skipped_def)
next
  case (Inr x)
  then obtain rt md det where dt: "detect_type (detector self) url = Inr ((rt, md), det)"
    by (cases x) auto
  show ?thesis
  proof (cases "extract url md")
    case (Inl e)
    with run wf dt show ?thesis by (auto simp: process_url_def skipped_def Let_def)
  next
    case ex: (Inr data)
    from save_content_outcome [OF wf, of now w data rt url]
    obtain r w1 st1 entry where
      sc: "save_content now w (storage self) data rt url = (Inr r, w1, st1)"
      and ents: "log_entries (processing_log st1)
                   = log_entries (processing_log (storage self)) @ [entry]"
      and eurl: "field entry ''url'' = Some (PStr url)"
      and est: "case r of
               Some p \<Rightarrow> is_file w1 p \<and> field entry ''status'' = Some (PStr ''completed'')
                          \<and> field entry ''output_file'' = Some (PStr p)
             | None \<Rightarrow> field entry ''status'' = Some (PStr ''failed'')
                        \<and> field entry ''output_file'' = Some PNone"
      and wf1: "is_processing_log (processing_log st1)"
      and cnt: "counts_recomputed (processing_log st1)"
      by blast
    show ?thesis
    proof (cases r)
      case None
      with run dt ex sc have s': "self' = self\<lparr>detector := det, storage := st1,
            run_failed := run_failed self + 1\<rparr>"
        by (simp add: process_url_def Let_def)
      have "logged ''failed'' url self self'"
        unfolding logged_def using ents eurl est cnt None
        by (intro exI [of _ entry]) (simp add: s')
      then show ?thesis using wf1 by (simp add: s')
    next
      case (Some p)
      with run dt ex sc have s': "self' = self\<lparr>detector := det, storage := st1,
            run_successful := run_successful self + 1\<rparr>"
        by (simp add: process_url_def Let_def)
      have "logged ''completed'' url self self'"
        unfolding logged_def using ents eurl est cnt Some
        by (intro exI [of _ entry]) (simp add: s')
      then show ?thesis using wf1 by (simp add: s')
    qed
  qed
qed

lemma process_url_extract_raises:
  assumes "\<forall>md. isl (extract url md)"
      and run: "process_url now extract w self url = (w', self')"
  shows "skipped self self' \<and> w' = w"
proof (cases "detect_type (detector self) url")
  case (Inl e)
  with run show ?thesis by (auto simp: process_url_def skipped_def)
next
  case (Inr x)
  then obtain rt md det where dt: "detect_type (detector self) url = Inr ((rt, md), det)"
    by (cases x) auto
  from assms(1) obtain e where "extract url md = Inl e"
    by (cases "extract url md") (auto dest: spec [of _ md])
  with run dt show ?thesis by (auto simp: process_url_def skipped_def Let_def)
qed

lemma process_resource_outcome:
  assumes wf: "is_processing_log (processing_log (storage self))"
      and run: "process_resource now extract w self r = (res, w', self')"
  shows "is_processing_log (processing_log (storage self'))
       \<and> ((res \<noteq> None \<and> self' = self \<and> w' = w)
          \<or> (\<exists>d u. r = PDict d \<and> dict_get d ''url'' (PStr '''') = PStr u \<and> res = None
                \<and> ((skipped self self' \<and> w' = w) \<or> logged ''completed'' (strip u) self self'
                     \<or> logged ''failed'' (strip u) self self')))"
proof (cases r)
  case (PDict d)
  show ?thesis
  proof (cases "dict_get d ''url'' (PStr '''')")
    case (PStr u)
    obtain w1 s1 where pu: "process_url now extract w self (strip u) = (w1, s1)"
      by (cases "process_url now extract w self (strip u)")
    with run PDict PStr have "res = None" "w' = w1" "self' = s1"
      by (simp_all add: process_resource_def)
    with process_url_outcome [OF wf pu] PDict PStr show ?thesis by blast
  qed (use run wf PDict in \<open>auto simp: process_resource_def\<close>)
qed (use run wf in \<open>auto simp: process_resource_def\<close>)

lemma process_resources_log:
  assumes "is_processing_log (processing_log (storage self))"
      and "counts_recomputed (processing_log (storage self))"
      and "process_resources now extract w self rs = (res, w', self')"
  shows "\<exists>new. log_entries (processing_log (storage self'))
                 = log_entries (processing_log (storage self)) @ new
           \<and> length new \<le> length rs
           \<and> is_processing_log (processing_log (storage self'))
           \<and> counts_recomputed (processing_log (storage self'))"
  using assms
proof (induction rs arbitrary: w self)
  case Nil
  then show ?case by simp
next
  case (Cons r rs)
  obtain res1 w1 s1 where pr: "process_resource now extract w self r = (res1, w1, s1)"
    by (cases "process_resource now extract w self r")
  note out = process_resource_outcome [OF Cons.prems(1) pr]
  then have wf1: "is_processing_log (processing_log (storage s1))" by simp
  have step: "\<exists>new1. log_entries (processing_log (storage s1))
                 = log_entries (processing_log (storage self)) @ new1
           \<and> length new1 \<le> 1 \<and> counts_recomputed (processing_log (storage s1))"
    using out Cons.prems(2)
    by (auto simp: skipped_def logged_def intro: exI [of _ "[]"])
  then obtain new1 where new1: "log_entries (processing_log (storage s1))
                 = log_entries (processing_log (storage self)) @ new1"
    "length new1 \<le> 1" and cnt1: "counts_recomputed (processing_log (storage s1))"
    by blast
  show ?case
  proof (cases res1)
    case (Some e)
    with Cons.prems(3) pr have "self' = s1" by simp
    with new1 cnt1 wf1 show ?thesis by (intro exI [of _ new1]) simp
  next
    case None
    with Cons.prems(3) pr have "process_resources now extract w1 s1 rs = (res, w', self')"
      by simp
    from Cons.IH [OF wf1 cnt1 this] obtain new2 where
      "log_entries (processing_log (storage self'))
         = log_entries (processing_log (storage s1)) @ new2"
      "length new2 \<le> length rs" "is_processing_log (processing_log (storage self'))"
      "counts_recomputed (processing_log (storage self'))"
      by blast
    with new1 show ?thesis by (intro exI [of _ "new1 @ new2"]) simp
  qed
qed

lemma process_all_log:
  assumes wf: "is_processing_log (processing_log (storage self))"
      and cnt: "counts_recomputed (processing_log (storage self))"
      and run: "process_all now extract w self = (res, w', self')"
  shows "\<exists>new. log_entries (processing_log (storage self'))
                 = log_entries (processing_log (storage self)) @ new
           \<and> is_processing_log (processing_log (storage self'))
           \<and> counts_recomputed (processing_log (storage self'))"
proof -
  let ?w1 = "snd (read_clock now w)"
  let ?s1 = "self\<lparr>start_time := Some (fst (read_clock now w))\<rparr>"
  show ?thesis
  proof (cases "load_and_validate ?w1 (loader ?s1) (input_file ?s1)")
    case (Inl e)
    with run have "self' = ?s1" by (simp add: process_all_def split_beta Let_def)
    with wf cnt show ?thesis by (intro exI [of _ "[]"]) simp
  next
    case (Inr x)
    then obtain rs ld where lv: "load_and_validate ?w1 (loader ?s1) (input_file ?s1) = Inr (rs, ld)"
      by (cases x) auto
    let ?s2 = "?s1\<lparr>loader := ld, run_total := length rs\<rparr>"
    show ?thesis
    proof (cases "rs = []")
      case True
      with run lv have "self' = ?s2" by (simp add: process_all_def split_beta Let_def)
      with wf cnt show ?thesis by (intro exI [of _ "[]"]) simp
    next
      case False
      obtain res2 w2 s3 where pr: "process_resources now extract ?w1 ?s2 rs = (res2, w2, s3)"
        by (cases "process_resources now extract ?w1 ?s2 rs")
      have wf2: "is_processing_log (processing_log (storage ?s2))" using wf by simp
      have cnt2: "counts_recomputed (processing_log (storage ?s2))" using cnt by simp
      from process_resources_log [OF wf2 cnt2 pr] obtain new where new:
        "log_entries (processing_log (storage s3))
           = log_entries (processing_log (storage self)) @ new"
        "is_processing_log (processing_log (storage s3))"
        "counts_recomputed (processing_log (storage s3))"
        by auto
      have "storage self' = storage s3"
        using run lv False pr
        by (cases res2) (auto simp: process_all_def split_beta Let_def)
      with new show ?thesis by (intro exI [of _ new]) simp
    qed
  qed
qed

lemma new_smart_extractor_loads_log:
  assumes ht: "holds_text w (join_path out ''_processing-log.json'') content"
      and js: "json_loads content = Some lg"
      and new: "new_smart_extractor now w input out = Inr (self, w1)"
  shows "processing_log (storage self) = lg"
proof -
  let ?lp = "join_path out ''_processing-log.json''"
  from new obtain st where ns: "new_storage now w out True = Inr (st, w1)"
    and self: "storage self = st"
    by (auto simp: new_smart_extractor_def split: sum.splits)
  from ns obtain wa where mk: "mkdir w out = Inr wa"
    by (auto simp: new_storage_def split: sum.splits)
  have "holds_text wa ?lp content"
    using ht mkdir_effect(1,2) [OF mk] by (simp add: holds_text_def)
  then have "load_processing_log now wa ?lp = (lg, wa)"
    using js holds_text_exists [of wa ?lp content] holds_text_read [of wa ?lp content]
    by (simp add: load_processing_log_def)
  with ns mk have "processing_log st = lg"
    by (auto simp: new_storage_def)
  with self show ?thesis by simp
qed

lemma rerun_log:
  assumes "holds_text w (join_path out ''_processing-log.json'') content"
      and "json_loads content = Some lg"
      and "is_processing_log lg" and "counts_recomputed lg"
      and "new_smart_extractor now w input out = Inr (self, w1)"
      and "process_all now extract w1 self = (res, w2, self')"
  shows "\<exists>new. log_entries (processing_log (storage self')) = log_entries lg @ new
       \<and> take (length (log_entries lg)) (log_entries (processing_log (storage self')))
           = log_entries lg
       \<and> field (processing_log (storage self')) ''total_processed''
           = Some (PInt (int (length (log_entries lg) + length new)))"
proof -
  have lg: "processing_log (storage self) = lg"
    using assms(1,2,5) by (rule new_smart_extractor_loads_log)
  from process_all_log [OF _ _ assms(6)] assms(3,4) lg obtain new where
    new: "log_entries (processing_log (storage self')) = log_entries lg @ new"
    and cnt: "counts_recomputed (processing_log (storage self'))"
    by auto
  from cnt have "field (processing_log (storage self')) ''total_processed''
           = Some (PInt (int (length (log_entries lg) + length new)))"
    by (simp add: counts_recomputed_def new)
  with new show ?thesis by (intro exI [of _ new]) simp
qed

lemma process_resource_record:
  "dict_get d ''url'' (PStr '''') = PStr u \<Longrightarrow>
   process_resource now extract w self (PDict d)
     = (None, process_url now extract w self (strip u))"
  by (simp add: process_resource_def split: prod.splits)

lemma three_resources_second_raises:
  assumes wf: "is_processing_log (processing_log (storage self))"
      and urls: "dict_get d1 ''url'' (PStr '''') = PStr u1"
        "dict_get d2 ''url'' (PStr '''') = PStr u2" "dict_get d3 ''url'' (PStr '''') = PStr u3"
      and raises: "\<forall>md. isl (extract (strip u2) md)"
      and run: "process_resources now extract w self [PDict d1, PDict d2, PDict d3]
                  = (res, w', self')"
      and two_saved: "run_successful self' = run_successful self + 2"
  shows "res = None \<and> run_failed self' = run_failed self + 1
       \<and> (\<exists>e1 e3. log_entries (processing_log (storage self'))
                     = log_entries (processing_log (storage self)) @ [e1, e3]
            \<and> field e1 ''url'' = Some (PStr (strip u1))
            \<and> field e1 ''status'' = Some (PStr ''completed'')
            \<and> field e3 ''url'' = Some (PStr (strip u3))
            \<and> field e3 ''status'' = Some (PStr ''completed''))
       \<and> counts_recomputed (processing_log (storage self'))"
proof -
  obtain wa sa where a: "process_url now extract w self (strip u1) = (wa, sa)"
    by (cases "process_url now extract w self (strip u1)")
  obtain wb sb where b: "process_url now extract wa sa (strip u2) = (wb, sb)"
    by (cases "process_url now extract wa sa (strip u2)")
  obtain wc sc where c: "process_url now extract wb sb (strip u3) = (wc, sc)"
    by (cases "process_url now extract wb sb (strip u3)")
  from run have res: "res = None" and s': "self' = sc"
    by (simp_all add: process_resource_record urls a b c)
  note oa = process_url_outcome [OF wf a]
  then have wfa: "is_processing_log (processing_log (storage sa))" by simp
  note ob = process_url_extract_raises [OF raises b]
  then have wfb: "is_processing_log (processing_log (storage sb))"
    using wfa by (simp add: skipped_def)
  note oc = process_url_outcome [OF wfb c]
  have succ_a: "run_successful sa \<le> run_successful self + 1"
    using oa by (auto simp: skipped_def logged_def)
  have succ_c: "run_successful sc \<le> run_successful sb + 1"
    using oc by (auto simp: skipped_def logged_def)
  have succ_b: "run_successful sb = run_successful sa" using ob by (simp add: skipped_def)
  have la: "logged ''completed'' (strip u1) self sa"
    using oa succ_c succ_b two_saved s' by (auto simp: skipped_def logged_def)
  have lc: "logged ''completed'' (strip u3) sb sc"
    using oc succ_a succ_b two_saved s' by (auto simp: skipped_def logged_def)
  from la obtain e1 where e1:
    "log_entries (processing_log (storage sa)) = log_entries (processing_log (storage self)) @ [e1]"
    "field e1 ''url'' = Some (PStr (strip u1))" "field e1 ''status'' = Some (PStr ''completed'')"
    "run_failed sa = run_failed self"
    by (auto simp: logged_def)
  from lc obtain e3 where e3:
    "log_entries (processing_log (storage sc)) = log_entries (processing_log (storage sb)) @ [e3]"
    "field e3 ''url'' = Some (PStr (strip u3))" "field e3 ''status'' = Some (PStr ''completed'')"
    "run_failed sc = run_failed sb" "counts_recomputed (processing_log (storage sc))"
    by (auto simp: logged_def)
  from ob have b': "storage sb = storage sa" "run_failed sb = run_failed sa + 1"
    by (simp_all add: skipped_def)
  have "log_entries (processing_log (storage self'))
          = log_entries (processing_log (storage self)) @ [e1, e3]"
    by (simp add: s' e3(1) b'(1) e1(1))
  with e1 e3 b' res s' show ?thesis by auto
qed

lemma run_with_one_failed_extraction_aux:
  assumes wf: "is_processing_log (processing_log (storage self))"
      and manifest: "load_and_validate (snd (read_clock now w)) (loader self) (input_file self)
                       = Inr ([PDict d1, PDict d2, PDict d3], ld)"
      and urls: "dict_get d1 ''url'' (PStr '''') = PStr u1"
        "dict_get d2 ''url'' (PStr '''') = PStr u2" "dict_get d3 ''url'' (PStr '''') = PStr u3"
      and raises: "\<forall>md. isl (extract (strip u2) md)"
      and run: "process_all now extract w self = (res, w', self')"
      and two_saved: "run_successful self' = run_successful self + 2"
  shows "res = None \<and> run_total self' = 3 \<and> run_failed self' = run_failed self + 1
       \<and> (\<exists>e1 e3. log_entries (processing_log (storage self'))
                     = log_entries (processing_log (storage self)) @ [e1, e3]
            \<and> field e1 ''url'' = Some (PStr (strip u1))
            \<and> field e1 ''status'' = Some (PStr ''completed'')
            \<and> field e3 ''url'' = Some (PStr (strip u3))
            \<and> field e3 ''status'' = Some (PStr ''completed''))
       \<and> counts_recomputed (processing_log (storage self'))"
proof -
  let ?w1 = "snd (read_clock now w)"
  let ?s2 = "self\<lparr>start_time := Some (fst (read_clock now w)), loader := ld,
      run_total := Suc (Suc (Suc 0))\<rparr>"
  let ?rs = "[PDict d1, PDict d2, PDict d3]"
  obtain res2 w2 s3 where pr: "process_resources now extract ?w1 ?s2 ?rs = (res2, w2, s3)"
    by (cases "process_resources now extract ?w1 ?s2 ?rs")
  have unfold: "process_all now extract w self =
      (case res2 of
         Some e \<Rightarrow> (Some e, w2, s3)
       | None \<Rightarrow> (None,
           save_processing_log (snd (read_clock now w2))
             (storage (s3\<lparr>end_time := Some (fst (read_clock now w2))\<rparr>)),
           s3\<lparr>end_time := Some (fst (read_clock now w2))\<rparr>))"
    using manifest pr
    by (simp add: process_all_def split_beta Let_def del: process_resources.simps
          split: option.splits)
  have same': "run_successful self' = run_successful s3 \<and> run_failed self' = run_failed s3
    \<and> storage self' = storage s3 \<and> run_total self' = run_total s3 \<and> res = res2"
  proof (cases res2)
    case None
    with run unfold have "res = None"
      "self' = s3\<lparr>end_time := Some (fst (read_clock now w2))\<rparr>"
      by simp_all
    with None show ?thesis by simp
  next
    case (Some e)
    with run unfold have "res = Some e" "self' = s3" by simp_all
    with Some show ?thesis by simp
  qed
  then have same: "run_successful self' = run_successful s3" "run_failed self' = run_failed s3"
    "storage self' = storage s3" "run_total self' = run_total s3" "res = res2"
    by simp_all
  have wf2: "is_processing_log (processing_log (storage ?s2))" using wf by simp
  have two: "run_successful s3 = run_successful ?s2 + 2" using two_saved same by simp
  note main = three_resources_second_raises [OF wf2 urls raises pr two]
  have "run_total s3 = run_total ?s2"
  proof -
    have "run_total b = run_total a" if "process_url now extract x a u = (y, b)" for x y a b u
      using that
      by (auto simp: process_url_def Let_def split: sum.splits prod.splits option.splits)
    then have step: "run_total b = run_total a"
      if "process_resource now extract x a r = (e, y, b)" for x y a b r e
      using that
      by (auto simp: process_resource_def split: pyval.splits prod.splits)
    have "run_total b = run_total a"
      if "process_resources now extract x a rs = (e, y, b)" for x y a b rs e
      using that
    proof (induction rs arbitrary: x a)
      case Nil
      then show ?case by simp
    next
      case (Cons r rs)
      obtain e1 x1 a1 where p: "process_resource now extract x a r = (e1, x1, a1)"
        by (cases "process_resource now extract x a r")
      with Cons step [OF p] show ?case by (cases e1) auto
    qed
    from this [OF pr] show ?thesis .
  qed
  with main same show ?thesis by (simp add: numeral_3_eq_3)
qed
section \<open>The claims about storage and orchestration\<close>


text \<open>
  Two documents titled \<^verbatim>\<open>Hello World!!!\<close>, saved one after the other as articles into
  an empty tree: \<^verbatim>\<open>hello-world.md\<close>, then \<^verbatim>\<open>hello-world-2.md\<close>, with different texts.
\<close>

definition hello_first :: "(string \<times> pyval) list" where
  "hello_first =
     [(''title'', PStr ''Hello World!!!''), (''description'', PStr ''first page''),
      (''content'', PStr ''one''), (''metadata'', PDict [])]"

definition hello_second :: "(string \<times> pyval) list" where
  "hello_second =
     [(''title'', PStr ''Hello World!!!''), (''description'', PStr ''second page''),
      (''content'', PStr ''two''), (''metadata'', PDict [])]"

definition first_save :: "(error + string option) \<times> world \<times> storage_manager" where
  "first_save =
     save_content example_clock empty_world fresh_storage (PDict hello_first) ''article''
       ''http://a.io/1''"

definition second_save :: "(error + string option) \<times> world \<times> storage_manager" where
  "second_save =
     save_content example_clock (fst (snd first_save)) (snd (snd first_save))
       (PDict hello_second) ''article'' ''http://a.io/2''"



lemma hello_files_differ:
  "map (\<lambda>f. fst f) (fs_files (fst (snd second_save)))
     = [''knowledge/articles/hello-world-2.md'', ''knowledge/articles/hello-world.md'']
   \<and> map_of (fs_files (fst (snd second_save))) ''knowledge/articles/hello-world.md''
     \<noteq> map_of (fs_files (fst (snd second_save))) ''knowledge/articles/hello-world-2.md''"
  by code_simp


text \<open>
  C7. A run started in an output tree whose processing log is readable, is a processing
  log and has its counts recomputed (as every log written by \<^verbatim>\<open>save_processing_log\<close>
  is): the manager starts from the entries of the file, the run only appends to them,
  whatever it processes and however it ends, so the entries of the file are the first
  entries of the log after the run, unchanged and in their order, and
  \<^verbatim>\<open>total_processed\<close> is their number plus the number of entries appended.
\<close>

theorem rerun_keeps_history:
  assumes "holds_text w (join_path out ''_processing-log.json'') content"
      and "json_loads content = Some lg"
      and "is_processing_log lg" and "counts_recomputed lg"
      and "new_smart_extractor now w input out = Inr (self, w1)"
      and "process_all now extract w1 self = (res, w2, self')"
  shows "\<exists>new. log_entries (processing_log (storage self')) = log_entries lg @ new
       \<and> take (length (log_entries lg)) (log_entries (processing_log (storage self')))
           = log_entries lg
       \<and> field (processing_log (storage self')) ''total_processed''
           = Some (PInt (int (length (log_entries lg) + length new)))"
  using assms by (rule rerun_log)

text \<open>
  An extractor that cannot reach \<^verbatim>\<open>http://b.io/2\<close> and reads every other page as one
  titled \<^verbatim>\<open>Hello World!!!\<close>.
\<close>

definition example_extract :: extractor where
  "example_extract url md =
     (if url = ''http://b.io/2'' then Inl (OtherError ''ConnectionError'' ''unreachable'')
      else Inr (PDict [(''title'', PStr ''Hello World!!!''), (''description'', PStr ''a page''),
                       (''content'', PStr url),
                       (''metadata'', PDict [(''url'', PStr url), (''extractor'', PStr ''fallback''),
                                             (''word_count'', PInt 1)])]))"

text \<open>An output tree left by an earlier run that saved one page, and a new manifest.\<close>

definition old_log_text :: string where
  "old_log_text = ''{\"last_updated\": \"2024-12-31T23:59:59\", \"total_processed\": 1, \"successful\": 1, \"failed\": 0, \"resources\": [{\"url\": \"http://a.io/1\", \"status\": \"completed\", \"output_file\": \"out/articles/hello-world.md\", \"error\": null}]}''"

definition old_log :: pyval where
  "old_log =
     PDict [(''last_updated'', PStr ''2024-12-31T23:59:59''), (''total_processed'', PInt 1),
            (''successful'', PInt 1), (''failed'', PInt 0),
            (''resources'',
             PList [PDict [(''url'', PStr ''http://a.io/1''), (''status'', PStr ''completed''),
                           (''output_file'', PStr ''out/articles/hello-world.md''),
                           (''error'', PNone)]])]"

definition history_world :: world where
  "history_world =
     \<lparr>fs_files = [(''in.json'', ''[{\"url\":\"http://c.io/3\"}]''),
                  (''out/_processing-log.json'', old_log_text),
                  (''out/articles/hello-world.md'', ''# Hello World!!!'')],
      fs_dirs = [''out'', ''out/articles''], fs_faults = [], clock_ticks = 0\<rparr>"

definition restarted :: "error + (smart_extractor \<times> world)" where
  "restarted = new_smart_extractor example_clock history_world ''in.json'' ''out''"

definition rerun :: "error option \<times> world \<times> smart_extractor" where
  "rerun = process_all example_clock example_extract (snd (projr restarted)) (fst (projr restarted))"

lemma history_world_log:
  "holds_text history_world (join_path ''out'' ''_processing-log.json'') old_log_text
   \<and> json_loads old_log_text = Some old_log
   \<and> is_processing_log old_log \<and> counts_recomputed old_log \<and> \<not> isl restarted"
  by code_simp

lemma rerun_example:
  "(case rerun of
      (res, w', self') \<Rightarrow>
        (res, map (\<lambda>e. field e ''url'') (log_entries (processing_log (storage self'))),
         field (processing_log (storage self')) ''total_processed'',
         map_of (fs_files w') ''out/_processing-log.json''
           = Some (json_dumps (processing_log (storage self')))))
   = (None, [Some (PStr ''http://a.io/1''), Some (PStr ''http://c.io/3'')], Some (PInt 2), True)"
  by code_simp

theorem rerun_keeps_history_witness:
  "holds_text history_world (join_path ''out'' ''_processing-log.json'') old_log_text
   \<and> json_loads old_log_text = Some old_log
   \<and> is_processing_log old_log \<and> counts_recomputed old_log
   \<and> \<not> isl restarted
   \<and> (\<exists>new. log_entries (processing_log (storage (snd (snd rerun)))) = log_entries old_log @ new
       \<and> take (length (log_entries old_log))
            (log_entries (processing_log (storage (snd (snd rerun))))) = log_entries old_log
       \<and> field (processing_log (storage (snd (snd rerun)))) ''total_processed''
           = Some (PInt (int (length (log_entries old_log) + length new))))"
proof -
  note h = history_world_log
  have st: "new_smart_extractor example_clock history_world ''in.json'' ''out''
              = Inr (fst (projr restarted), snd (projr restarted))"
    using h unfolding restarted_def [symmetric] by simp
  have run: "process_all example_clock example_extract (snd (projr restarted))
               (fst (projr restarted)) = (fst rerun, fst (snd rerun), snd (snd rerun))"
    unfolding rerun_def [symmetric] by simp
  show ?thesis
    using h rerun_keeps_history [OF _ _ _ _ st run, of old_log_text old_log] by blast
qed

text \<open>
  C1. The claim: when the extractor raises for the second of three resources and the
  other two are saved, the processing log ends the run with two entries of status
  \<^verbatim>\<open>completed\<close> and one of status \<^verbatim>\<open>failed\<close>. The handler of \<^verbatim>\<open>_process_resource\<close>
  counts the failure in the run statistics and does not touch the processing log, which
  only \<^verbatim>\<open>save_content\<close> writes: the run below ends with the statistics 2 successful
  and 1 failed, and with a log of two entries, both \<^verbatim>\<open>completed\<close>, whose count of
  failed entries is 0.
\<close>

definition manifest_world :: world where
  "manifest_world =
     \<lparr>fs_files = [(''in.json'',
         ''[{\"url\":\"http://a.io/1\"},{\"url\":\"http://b.io/2\"},{\"url\":\"http://c.io/3\"}]'')],
      fs_dirs = [], fs_faults = [], clock_ticks = 0\<rparr>"

definition started :: "error + (smart_extractor \<times> world)" where
  "started = new_smart_extractor example_clock manifest_world ''in.json'' ''out''"

definition example_run :: "error option \<times> world \<times> smart_extractor" where
  "example_run =
     process_all example_clock example_extract (snd (projr started)) (fst (projr started))"

theorem failed_extraction_leaves_no_log_entry:
  "\<not> isl started
   \<and> \<not> isl (example_extract ''http://a.io/1'' []) \<and> isl (example_extract ''http://b.io/2'' [])
   \<and> \<not> isl (example_extract ''http://c.io/3'' [])
   \<and> (case example_run of
        (res, w', self') \<Rightarrow>
          (res, run_total self', run_successful self', run_failed self',
           map (\<lambda>e. (field e ''url'', field e ''status''))
             (log_entries (processing_log (storage self'))),
           field (processing_log (storage self')) ''failed''))
     = (None, 3, 2, 1,
        [(Some (PStr ''http://a.io/1''), Some (PStr ''completed'')),
         (Some (PStr ''http://c.io/3''), Some (PStr ''completed''))],
        Some (PInt 0))"
  by code_simp

text \<open>
  C1, as amended. In every run over three resource records in which the extractor
  raises for the second and two resources are counted as saved: no exception leaves the
  run, the run statistics count one failure, and the processing log gains exactly two
  entries, for the first and the third resource, both with status \<^verbatim>\<open>completed\<close>; its
  counts are recomputed from the entries. The failed extraction is in the run
  statistics only.
\<close>

theorem run_with_one_failed_extraction:
  assumes "is_processing_log (processing_log (storage self))"
      and "load_and_validate (snd (read_clock now w)) (loader self) (input_file self)
             = Inr ([PDict d1, PDict d2, PDict d3], ld)"
      and "dict_get d1 ''url'' (PStr '''') = PStr u1"
      and "dict_get d2 ''url'' (PStr '''') = PStr u2"
      and "dict_get d3 ''url'' (PStr '''') = PStr u3"
      and "\<forall>md. isl (extract (strip u2) md)"
      and "process_all now extract w self = (res, w', self')"
      and "run_successful self' = run_successful self + 2"
  shows "res = None \<and> run_total self' = 3 \<and> run_failed self' = run_failed self + 1
       \<and> (\<exists>e1 e3. log_entries (processing_log (storage self'))
                     = log_entries (processing_log (storage self)) @ [e1, e3]
            \<and> field e1 ''url'' = Some (PStr (strip u1))
            \<and> field e1 ''status'' = Some (PStr ''completed'')
            \<and> field e3 ''url'' = Some (PStr (strip u3))
            \<and> field e3 ''status'' = Some (PStr ''completed''))
       \<and> counts_recomputed (processing_log (storage self'))"
  using assms by (rule run_with_one_failed_extraction_aux)

lemma started_state:
  "\<not> isl started
   \<and> is_processing_log (processing_log (storage (fst (projr started))))
   \<and> run_successful (fst (projr started)) = 0
   \<and> load_and_validate (snd (read_clock example_clock (snd (projr started))))
        (loader (fst (projr started))) (input_file (fst (projr started)))
      = Inr ([PDict [(''url'', PStr ''http://a.io/1'')], PDict [(''url'', PStr ''http://b.io/2'')],
              PDict [(''url'', PStr ''http://c.io/3'')]],
             \<lparr>resources = [PDict [(''url'', PStr ''http://a.io/1'')],
                            PDict [(''url'', PStr ''http://b.io/2'')],
                            PDict [(''url'', PStr ''http://c.io/3'')]],
              stat_total = 3, stat_valid = 3, stat_invalid = 0, stat_duplicates = 0\<rparr>)"
  by code_simp

lemma example_run_successful: "run_successful (snd (snd example_run)) = 2"
  by code_simp

theorem run_with_one_failed_extraction_witness:
  "is_processing_log (processing_log (storage (fst (projr started))))
   \<and> (\<forall>md. isl (example_extract (strip ''http://b.io/2'') md))
   \<and> run_successful (snd (snd example_run)) = run_successful (fst (projr started)) + 2
   \<and> fst example_run = None \<and> run_total (snd (snd example_run)) = 3
   \<and> run_failed (snd (snd example_run)) = run_failed (fst (projr started)) + 1
   \<and> (\<exists>e1 e3. log_entries (processing_log (storage (snd (snd example_run))))
                 = log_entries (processing_log (storage (fst (projr started)))) @ [e1, e3]
        \<and> field e1 ''url'' = Some (PStr (strip ''http://a.io/1''))
        \<and> field e1 ''status'' = Some (PStr ''completed'')
        \<and> field e3 ''url'' = Some (PStr (strip ''http://c.io/3''))
        \<and> field e3 ''status'' = Some (PStr ''completed''))
   \<and> counts_recomputed (processing_log (storage (snd (snd example_run))))"
proof -
  note s = started_state
  have "strip ''http://b.io/2'' = ''http://b.io/2''" by code_simp
  then have raises: "\<forall>md. isl (example_extract (strip ''http://b.io/2'') md)"
    by (simp add: example_extract_def)
  have two: "run_successful (snd (snd example_run)) = run_successful (fst (projr started)) + 2"
    using s example_run_successful by simp
  have run: "process_all example_clock example_extract (snd (projr started))
               (fst (projr started))
             = (fst example_run, fst (snd example_run), snd (snd example_run))"
    unfolding example_run_def [symmetric] by simp
  have u: "dict_get [(''url'', PStr ''http://a.io/1'')] ''url'' (PStr '''') = PStr ''http://a.io/1''"
    "dict_get [(''url'', PStr ''http://b.io/2'')] ''url'' (PStr '''') = PStr ''http://b.io/2''"
    "dict_get [(''url'', PStr ''http://c.io/3'')] ''url'' (PStr '''') = PStr ''http://c.io/3''"
    by (simp_all add: dict_get_def)
  from s have wf: "is_processing_log (processing_log (storage (fst (projr started))))"
    and lv: "load_and_validate (snd (read_clock example_clock (snd (projr started))))
        (loader (fst (projr started))) (input_file (fst (projr started)))
      = Inr ([PDict [(''url'', PStr ''http://a.io/1'')], PDict [(''url'', PStr ''http://b.io/2'')],
              PDict [(''url'', PStr ''http://c.io/3'')]],
             \<lparr>resources = [PDict [(''url'', PStr ''http://a.io/1'')],
                            PDict [(''url'', PStr ''http://b.io/2'')],
                            PDict [(''url'', PStr ''http://c.io/3'')]],
              stat_total = 3, stat_valid = 3, stat_invalid = 0, stat_duplicates = 0\<rparr>)"
    by simp_all
  show ?thesis
    using wf raises two run_with_one_failed_extraction [OF wf lv u raises run two]
    by (intro conjI) (assumption | simp)+
qed

end
